theory Spec2Isabelle
  imports Complex_Main "HOL-Library.Word"
begin

text \<open>
  The repository holds two browser scripts: the skill graph, a force-directed layout of
  draggable nodes on a canvas (class \<open>SkillEcosystem\<close>), and a form-capture utility that
  copies input fields into the fields of a document (\<open>updateCV\<close>, \<open>setVal\<close>). This
  theory embeds the functions of both that compute, over an explicit state, and proves
  what the specification says about them; the drawing code, the popup and the timers'
  timing are not modelled.
\<close>

section \<open>JavaScript numbers\<close>

text \<open>
  Every number of the visualisation is a JavaScript number. The model keeps the three
  special values of that type, \<open>NaN\<close>, \<open>+Infinity\<close> and \<open>-Infinity\<close>, and the rules by
  which the operators produce and propagate them (\<open>0 / 0\<close> is \<open>NaN\<close>, a comparison with
  \<open>NaN\<close> is false, \<open>NaN\<close> absorbs every operation). On finite operands the operators are
  those of the real numbers. Rounding to binary64 is a function of its own, \<open>fl\<close> below,
  and follows each operation of the resize callback, whose whole effect on a node is
  that rounding. Everywhere else rounding, overflow to an infinity and the sign of zero
  are not modelled, so a statement there about a finite value is a statement about
  exact arithmetic.
\<close>

datatype jsnum = Fin real | PInf | NInf | NaN

instantiation jsnum :: "{plus, uminus, minus, times, inverse, ord}"
begin

fun plus_jsnum :: "jsnum \<Rightarrow> jsnum \<Rightarrow> jsnum" where
  "Fin a + Fin b = Fin (a + b)"
| "NaN + _ = NaN"
| "_ + NaN = NaN"
| "PInf + NInf = NaN"
| "NInf + PInf = NaN"
| "PInf + _ = PInf"
| "_ + PInf = PInf"
| "NInf + _ = NInf"
| "_ + NInf = NInf"

fun uminus_jsnum :: "jsnum \<Rightarrow> jsnum" where
  "- Fin a = Fin (- a)"
| "- PInf = NInf"
| "- NInf = PInf"
| "- NaN = NaN"

definition minus_jsnum :: "jsnum \<Rightarrow> jsnum \<Rightarrow> jsnum" where
  "minus_jsnum a b = a + (- b)"

fun times_jsnum :: "jsnum \<Rightarrow> jsnum \<Rightarrow> jsnum" where
  "Fin a * Fin b = Fin (a * b)"
| "NaN * _ = NaN"
| "_ * NaN = NaN"
| "PInf * Fin b = (if b = 0 then NaN else if 0 < b then PInf else NInf)"
| "NInf * Fin b = (if b = 0 then NaN else if 0 < b then NInf else PInf)"
| "Fin a * PInf = (if a = 0 then NaN else if 0 < a then PInf else NInf)"
| "Fin a * NInf = (if a = 0 then NaN else if 0 < a then NInf else PInf)"
| "PInf * PInf = PInf"
| "PInf * NInf = NInf"
| "NInf * PInf = NInf"
| "NInf * NInf = PInf"

fun divide_jsnum :: "jsnum \<Rightarrow> jsnum \<Rightarrow> jsnum" where
  "Fin a div Fin b =
     (if b = 0 then (if a = 0 then NaN else if 0 < a then PInf else NInf)
      else Fin (a / b))"
| "NaN div _ = NaN"
| "_ div NaN = NaN"
| "Fin a div PInf = Fin 0"
| "Fin a div NInf = Fin 0"
| "PInf div Fin b = (if 0 \<le> b then PInf else NInf)"
| "NInf div Fin b = (if 0 \<le> b then NInf else PInf)"
| "PInf div PInf = NaN"
| "PInf div NInf = NaN"
| "NInf div PInf = NaN"
| "NInf div NInf = NaN"

definition inverse_jsnum :: "jsnum \<Rightarrow> jsnum" where
  "inverse_jsnum a = Fin 1 div a"

fun less_jsnum :: "jsnum \<Rightarrow> jsnum \<Rightarrow> bool" where
  "Fin a < Fin b \<longleftrightarrow> a < b"
| "NaN < _ \<longleftrightarrow> False"
| "_ < NaN \<longleftrightarrow> False"
| "NInf < NInf \<longleftrightarrow> False"
| "NInf < _ \<longleftrightarrow> True"
| "_ < NInf \<longleftrightarrow> False"
| "PInf < _ \<longleftrightarrow> False"
| "_ < PInf \<longleftrightarrow> True"

fun less_eq_jsnum :: "jsnum \<Rightarrow> jsnum \<Rightarrow> bool" where
  "Fin a \<le> Fin b \<longleftrightarrow> a \<le> b"
| "NaN \<le> _ \<longleftrightarrow> False"
| "_ \<le> NaN \<longleftrightarrow> False"
| "NInf \<le> _ \<longleftrightarrow> True"
| "_ \<le> NInf \<longleftrightarrow> False"
| "_ \<le> PInf \<longleftrightarrow> True"
| "PInf \<le> _ \<longleftrightarrow> False"

instance ..

end

text \<open>\<open>Math.sqrt\<close>: \<open>NaN\<close> below zero.\<close>

fun jsqrt :: "jsnum \<Rightarrow> jsnum" where
  "jsqrt (Fin a) = (if a < 0 then NaN else Fin (sqrt a))"
| "jsqrt PInf = PInf"
| "jsqrt NInf = NaN"
| "jsqrt NaN = NaN"

text \<open>\<open>Math.cos\<close>, \<open>Math.sin\<close> and \<open>Math.min\<close>.\<close>

fun jcos :: "jsnum \<Rightarrow> jsnum" where
  "jcos (Fin a) = Fin (cos a)"
| "jcos _ = NaN"

fun jsin :: "jsnum \<Rightarrow> jsnum" where
  "jsin (Fin a) = Fin (sin a)"
| "jsin _ = NaN"

fun jmin :: "jsnum \<Rightarrow> jsnum \<Rightarrow> jsnum" where
  "jmin NaN _ = NaN"
| "jmin _ NaN = NaN"
| "jmin a b = (if a < b then a else b)"


section \<open>Rounding to binary64\<close>

text \<open>
  The value of an arithmetic operation on finite JavaScript numbers is the real result
  rounded to the nearest binary64 number, a tie going to the neighbour with the even
  significand, and an infinity when the rounded result reaches \<open>2 ^ 1024\<close>.
  \<open>binade y\<close> is the exponent \<open>e\<close> with \<open>2 ^ e \<le> \<bar>y\<bar> < 2 ^ (e + 1)\<close>; the binary64 numbers
  of that binade are the multiples of \<open>2 ^ (e - 52)\<close>, and those below the normal range
  the multiples of \<open>2 ^ (- 1074)\<close>.
\<close>

definition binade :: "real \<Rightarrow> int" where
  "binade y = \<lfloor>log 2 \<bar>y\<bar>\<rfloor>"

definition quantum :: "real \<Rightarrow> real" where
  "quantum y = 2 powr (of_int (max (binade y) (- 1022)) - 52)"

definition roundHalfEven :: "real \<Rightarrow> int" where
  "roundHalfEven z =
     (let f = \<lfloor>z\<rfloor>
      in if z - of_int f < 1 / 2 then f
         else if 1 / 2 < z - of_int f then f + 1
         else if even f then f else f + 1)"

definition roundDouble :: "real \<Rightarrow> real" where
  "roundDouble y =
     (if y = 0 then 0 else of_int (roundHalfEven (y / quantum y)) * quantum y)"

fun fl :: "jsnum \<Rightarrow> jsnum" where
  "fl (Fin y) =
     (let r = roundDouble y
      in if 2 ^ 1024 \<le> \<bar>r\<bar> then (if 0 < r then PInf else NInf) else Fin r)"
| "fl v = v"


section \<open>The skill graph: data\<close>

text \<open>
  A node is the object built in \<open>initializeSkills\<close>: the simulation fields and the fields
  spread in from the catalogue entry (the description, a display text that no modelled
  function reads, is left out). Objects are held in the array \<open>nodes\<close>, which is never
  reassigned after initialisation, so a reference to a node is its index in that array;
  \<open>None\<close> stands for \<open>null\<close> and \<open>undefined\<close>. The fields keep their names behind a
  prefix (\<open>x\<close> is \<open>node_x\<close>, \<open>from\<close> is \<open>conn_from\<close>).
\<close>

record skill =
  skill_name :: string
  skill_category :: string
  skill_color :: string
  skill_projects :: "string list"

record node =
  node_id :: nat
  node_x :: jsnum
  node_y :: jsnum
  node_vx :: jsnum
  node_vy :: jsnum
  node_radius :: jsnum
  node_name :: string
  node_category :: string
  node_color :: string
  node_projects :: "string list"

type_synonym noderef = "nat option"

record connection =
  conn_from :: noderef
  conn_to :: noderef

text \<open>
  The instance of \<open>SkillEcosystem\<close>, with the closure variables \<open>mouseX\<close>, \<open>mouseY\<close> of
  \<open>setupEventListeners\<close> and a flag for its pending hover timer.
\<close>

record ecosystem =
  friction :: jsnum
  repulsionStrength :: jsnum
  attractionStrength :: jsnum
  centerAttraction :: jsnum
  minDistance :: jsnum
  nodes :: "node list"
  connections :: "connection list"
  draggedNode :: noderef
  hoveredNode :: noderef
  width :: jsnum
  height :: jsnum
  centerX :: jsnum
  centerY :: jsnum
  mouseX :: jsnum
  mouseY :: jsnum
  hoverTimer :: bool
  cursor :: string

text \<open>The object a reference points to; a reference outside the array denotes no object.\<close>

definition deref :: "ecosystem \<Rightarrow> noderef \<Rightarrow> node option" where
  "deref st r =
     (case r of
        None \<Rightarrow> None
      | Some k \<Rightarrow> if k < length (nodes st) then Some (nodes st ! k) else None)"


section \<open>Interaction\<close>

text \<open>
  \<open>getNodeAtPosition\<close>: the loop runs \<open>i\<close> from \<open>nodes.length - 1\<close> down to \<open>0\<close> and returns
  at the first hit. \<open>scanNodes ns px py k\<close> is the loop with \<open>k\<close> indices left to visit.
\<close>

definition hit :: "node \<Rightarrow> jsnum \<Rightarrow> jsnum \<Rightarrow> bool" where
  "hit nd px py =
     (let dx = px - node_x nd;
          dy = py - node_y nd;
          distance = jsqrt (dx * dx + dy * dy)
      in distance < node_radius nd)"

fun scanNodes :: "node list \<Rightarrow> jsnum \<Rightarrow> jsnum \<Rightarrow> nat \<Rightarrow> noderef" where
  "scanNodes ns px py 0 = None"
| "scanNodes ns px py (Suc i) =
     (if hit (ns ! i) px py then Some i else scanNodes ns px py i)"

definition getNodeAtPosition :: "ecosystem \<Rightarrow> jsnum \<Rightarrow> jsnum \<Rightarrow> noderef" where
  "getNodeAtPosition st px py = scanNodes (nodes st) px py (length (nodes st))"

text \<open>
  The \<open>mousemove\<close> handler. The pointer coordinates are the event's client coordinates
  less the origin of the canvas rectangle. With a dragged node, that node is pinned to the
  pointer and stopped; otherwise the hover timer is rearmed.
\<close>

definition mousemove :: "ecosystem \<Rightarrow> jsnum \<Rightarrow> jsnum \<Rightarrow> jsnum \<Rightarrow> jsnum \<Rightarrow> ecosystem" where
  "mousemove st clientX clientY rectLeft rectTop =
     (let st1 = st\<lparr>mouseX := clientX - rectLeft, mouseY := clientY - rectTop\<rparr>
      in case draggedNode st1 of
           Some d \<Rightarrow>
             st1\<lparr>nodes := (nodes st1)[d := (nodes st1 ! d)
               \<lparr>node_x := mouseX st1, node_y := mouseY st1,
                node_vx := Fin 0, node_vy := Fin 0\<rparr>]\<rparr>
         | None \<Rightarrow> st1\<lparr>hoverTimer := True\<rparr>)"

text \<open>The \<open>mousedown\<close> and \<open>mouseup\<close> handlers.\<close>

definition mousedown :: "ecosystem \<Rightarrow> jsnum \<Rightarrow> jsnum \<Rightarrow> jsnum \<Rightarrow> jsnum \<Rightarrow> ecosystem" where
  "mousedown st clientX clientY rectLeft rectTop =
     (let st1 = st\<lparr>mouseX := clientX - rectLeft, mouseY := clientY - rectTop\<rparr>;
          st2 = st1\<lparr>draggedNode := getNodeAtPosition st1 (mouseX st1) (mouseY st1)\<rparr>
      in case draggedNode st2 of
           Some d \<Rightarrow> st2\<lparr>cursor := ''grabbing''\<rparr>
         | None \<Rightarrow> st2)"

definition mouseup :: "ecosystem \<Rightarrow> ecosystem" where
  "mouseup st =
     (case draggedNode st of
        Some d \<Rightarrow> st\<lparr>draggedNode := None, cursor := ''grab''\<rparr>
      | None \<Rightarrow> st)"


section \<open>Canvas geometry and initialisation\<close>

text \<open>
  \<open>setupCanvas\<close> reads the bounding rectangle of the canvas; of what it sets, the layout
  reads \<open>width\<close>, \<open>height\<close> and the centre.
\<close>

definition setupCanvas :: "ecosystem \<Rightarrow> jsnum \<Rightarrow> jsnum \<Rightarrow> ecosystem" where
  "setupCanvas st rectWidth rectHeight =
     (let st1 = st\<lparr>width := rectWidth, height := rectHeight\<rparr>
      in st1\<lparr>centerX := width st1 / Fin 2, centerY := height st1 / Fin 2\<rparr>)"

text \<open>
  The body of the debounced \<open>resize\<close> callback. The two scale factors it computes are
  locals that nothing reads; every node is then assigned
  \<open>centerX + (x - centerX)\<close> and \<open>centerY + (y - centerY)\<close>. Each of the two assignments is
  a subtraction and an addition of JavaScript numbers, and each of those rounds, so the
  model applies \<open>fl\<close> after both. (The halving in \<open>setupCanvas\<close> needs no rounding: half
  of a binary64 number of the normal range is a binary64 number.)
\<close>

definition resize :: "ecosystem \<Rightarrow> jsnum \<Rightarrow> jsnum \<Rightarrow> ecosystem" where
  "resize st rectWidth rectHeight =
     (let st1 = setupCanvas st rectWidth rectHeight
      in st1\<lparr>nodes := map (\<lambda>nd. nd
           \<lparr>node_x := fl (centerX st1 + fl (node_x nd - centerX st1)),
            node_y := fl (centerY st1 + fl (node_y nd - centerY st1))\<rparr>) (nodes st1)\<rparr>)"

text \<open>
  \<open>Array.prototype.find\<close> over the node array, as a reference: the index of the first
  node that satisfies the predicate, \<open>None\<close> (\<open>undefined\<close>) when there is none.
\<close>

fun findFrom :: "nat \<Rightarrow> (node \<Rightarrow> bool) \<Rightarrow> node list \<Rightarrow> noderef" where
  "findFrom k P [] = None"
| "findFrom k P (n # ns) = (if P n then Some k else findFrom (Suc k) P ns)"

definition findNode :: "(node \<Rightarrow> bool) \<Rightarrow> node list \<Rightarrow> noderef" where
  "findNode P ns = findFrom 0 P ns"

text \<open>
  \<open>initializeSkills\<close>, with its two local tables (the catalogue and the connection list)
  and the stream of \<open>Math.random()\<close> results as parameters. The node of index \<open>k\<close> draws
  the random numbers \<open>2k\<close> and \<open>2k + 1\<close>.
\<close>

definition makeNode :: "ecosystem \<Rightarrow> nat \<Rightarrow> (nat \<Rightarrow> real) \<Rightarrow> nat \<Rightarrow> skill \<Rightarrow> node" where
  "makeNode st n rnd index sk =
     (let angle = (Fin (real index) / Fin (real n)) * Fin pi * Fin 2;
          radius = jmin (width st) (height st) * Fin 0.25
      in \<lparr>node_id = index,
          node_x = centerX st + jcos angle * radius + (Fin (rnd (2 * index)) - Fin 0.5) * Fin 50,
          node_y = centerY st + jsin angle * radius + (Fin (rnd (2 * index + 1)) - Fin 0.5) * Fin 50,
          node_vx = Fin 0,
          node_vy = Fin 0,
          node_radius = Fin 30,
          node_name = skill_name sk,
          node_category = skill_category sk,
          node_color = skill_color sk,
          node_projects = skill_projects sk\<rparr>)"

definition makeConnection :: "node list \<Rightarrow> string \<times> string \<Rightarrow> connection" where
  "makeConnection ns p =
     (case p of (from, to) \<Rightarrow>
        \<lparr>conn_from = findNode (\<lambda>n. node_name n = from) ns,
         conn_to = findNode (\<lambda>n. node_name n = to) ns\<rparr>)"

definition initializeSkillsWith ::
  "ecosystem \<Rightarrow> skill list \<Rightarrow> (string \<times> string) list \<Rightarrow> (nat \<Rightarrow> real) \<Rightarrow> ecosystem" where
  "initializeSkillsWith st skills connectionMap rnd =
     (let st1 = st\<lparr>nodes := map (\<lambda>(index, sk). makeNode st (length skills) rnd index sk)
                                (enumerate 0 skills)\<rparr>
      in st1\<lparr>connections := map (makeConnection (nodes st1)) connectionMap\<rparr>)"

text \<open>The two tables of the source.\<close>

definition skills :: "skill list" where
  "skills =
     [\<lparr>skill_name = ''Industrial Engineering'', skill_category = ''core'',
       skill_color = ''#00f2ff'',
       skill_projects = [''Supply Chain Optimization'', ''Process Improvement'',
                         ''Production Planning'']\<rparr>,
      \<lparr>skill_name = ''ERP Systems'', skill_category = ''technical'',
       skill_color = ''#a855f7'',
       skill_projects = [''IFS Implementation'', ''SAP Integration'',
                         ''Business Process Automation'']\<rparr>,
      \<lparr>skill_name = ''Python'', skill_category = ''programming'',
       skill_color = ''#3b82f6'',
       skill_projects = [''Data Analysis Tools'', ''Automation Scripts'', ''Web Scrapers'']\<rparr>,
      \<lparr>skill_name = ''IFS Applications'', skill_category = ''technical'',
       skill_color = ''#ec4899'',
       skill_projects = [''Module Customization'', ''Workflow Design'',
                         ''Report Development'']\<rparr>,
      \<lparr>skill_name = ''Data Analysis'', skill_category = ''analytics'',
       skill_color = ''#10b981'',
       skill_projects = [''KPI Dashboards'', ''Statistical Analysis'', ''Predictive Models'']\<rparr>,
      \<lparr>skill_name = ''JavaScript'', skill_category = ''programming'',
       skill_color = ''#f59e0b'',
       skill_projects = [''Interactive Visualizations'', ''Web Applications'',
                         ''This Portfolio!'']\<rparr>,
      \<lparr>skill_name = ''Process Optimization'', skill_category = ''core'',
       skill_color = ''#8b5cf6'',
       skill_projects = [''Lean Manufacturing'', ''Six Sigma Projects'', ''Workflow Analysis'']\<rparr>,
      \<lparr>skill_name = ''SQL & Databases'', skill_category = ''technical'',
       skill_color = ''#06b6d4'',
       skill_projects = [''Query Optimization'', ''Database Design'', ''ETL Pipelines'']\<rparr>]"

definition connectionMap :: "(string \<times> string) list" where
  "connectionMap =
     [(''Industrial Engineering'', ''Process Optimization''),
      (''Industrial Engineering'', ''ERP Systems''),
      (''ERP Systems'', ''IFS Applications''),
      (''Python'', ''Data Analysis''),
      (''Python'', ''SQL & Databases''),
      (''JavaScript'', ''Data Analysis''),
      (''IFS Applications'', ''SQL & Databases''),
      (''Data Analysis'', ''Process Optimization''),
      (''ERP Systems'', ''SQL & Databases'')]"

definition initializeSkills :: "ecosystem \<Rightarrow> (nat \<Rightarrow> real) \<Rightarrow> ecosystem" where
  "initializeSkills st rnd = initializeSkillsWith st skills connectionMap rnd"

text \<open>The constructor's field values, before \<open>init\<close> runs.\<close>

definition newEcosystem :: ecosystem where
  "newEcosystem =
     \<lparr>friction = Fin 0.85,
      repulsionStrength = Fin 8000,
      attractionStrength = Fin 0.001,
      centerAttraction = Fin 0.002,
      minDistance = Fin 100,
      nodes = [],
      connections = [],
      draggedNode = None,
      hoveredNode = None,
      width = Fin 0,
      height = Fin 0,
      centerX = Fin 0,
      centerY = Fin 0,
      mouseX = Fin 0,
      mouseY = Fin 0,
      hoverTimer = False,
      cursor = []\<rparr>"


section \<open>The layout engine\<close>

text \<open>
  \<open>updatePhysics\<close> visits the nodes in index order and writes each node back before it
  visits the next, so the forces on a node are computed from the new positions of the
  nodes before it and the old positions of the nodes after it. \<open>updateNode st i\<close> is one
  pass of the outer loop, on the state as that pass finds it.
\<close>

text \<open>One pass of the inner loop over \<open>j\<close>, for \<open>i \<noteq> j\<close>: the repulsion of \<open>nodeB\<close> on \<open>nodeA\<close>.\<close>

definition repel :: "ecosystem \<Rightarrow> node \<Rightarrow> node \<Rightarrow> jsnum \<times> jsnum \<Rightarrow> jsnum \<times> jsnum" where
  "repel st nodeA nodeB f =
     (let dx = node_x nodeA - node_x nodeB;
          dy = node_y nodeA - node_y nodeB;
          distSq = dx * dx + dy * dy;
          dist = jsqrt distSq
      in if dist < minDistance st * Fin 3
         then (let force = repulsionStrength st / (distSq + Fin 1)
               in (fst f + (dx / dist) * force, snd f + (dy / dist) * force))
         else f)"

definition repulsion :: "ecosystem \<Rightarrow> nat \<Rightarrow> jsnum \<times> jsnum \<Rightarrow> jsnum \<times> jsnum" where
  "repulsion st i f =
     fold (\<lambda>j f. if i = j then f else repel st (nodes st ! i) (nodes st ! j) f)
          [0..<length (nodes st)] f"

text \<open>One call of the \<open>forEach\<close> callback over the connections.\<close>

definition spring :: "ecosystem \<Rightarrow> nat \<Rightarrow> connection \<Rightarrow> jsnum \<times> jsnum \<Rightarrow> jsnum \<times> jsnum" where
  "spring st i conn f =
     (let (other, sign) =
            (if conn_from conn = Some i then (conn_to conn, Fin 1)
             else if conn_to conn = Some i then (conn_from conn, Fin (- 1))
             else (None, Fin 1))
      in case deref st other of
           None \<Rightarrow> f
         | Some ob \<Rightarrow>
             (let nodeA = nodes st ! i;
                  dx = node_x ob - node_x nodeA;
                  dy = node_y ob - node_y nodeA;
                  dist = jsqrt (dx * dx + dy * dy);
                  optimalDist = Fin 150;
                  force = (dist - optimalDist) * attractionStrength st
              in (fst f + (dx / dist) * force * sign, snd f + (dy / dist) * force * sign)))"

definition attraction :: "ecosystem \<Rightarrow> nat \<Rightarrow> jsnum \<times> jsnum \<Rightarrow> jsnum \<times> jsnum" where
  "attraction st i f = fold (spring st i) (connections st) f"

text \<open>The accumulated force \<open>(fx, fy)\<close> on node \<open>i\<close>: repulsion, springs, pull to the centre.\<close>

definition forces :: "ecosystem \<Rightarrow> nat \<Rightarrow> jsnum \<times> jsnum" where
  "forces st i =
     (let nodeA = nodes st ! i;
          f = attraction st i (repulsion st i (Fin 0, Fin 0));
          dcx = centerX st - node_x nodeA;
          dcy = centerY st - node_y nodeA
      in (fst f + dcx * centerAttraction st, snd f + dcy * centerAttraction st))"

text \<open>Velocity and position update of node \<open>i\<close>, before the boundary is applied.\<close>

definition integrate :: "ecosystem \<Rightarrow> nat \<Rightarrow> node" where
  "integrate st i =
     (let nodeA = nodes st ! i;
          f = forces st i;
          a1 = nodeA\<lparr>node_vx := (node_vx nodeA + fst f) * friction st,
                     node_vy := (node_vy nodeA + snd f) * friction st\<rparr>
      in a1\<lparr>node_x := node_x a1 + node_vx a1, node_y := node_y a1 + node_vy a1\<rparr>)"

text \<open>The soft boundary, first on the horizontal axis, then on the vertical one.\<close>

definition boundaryX :: "ecosystem \<Rightarrow> node \<Rightarrow> node" where
  "boundaryX st nd =
     (let margin = node_radius nd + Fin 10
      in if node_x nd < margin
         then nd\<lparr>node_x := margin, node_vx := node_vx nd * Fin (- 0.5)\<rparr>
         else if width st - margin < node_x nd
         then nd\<lparr>node_x := width st - margin, node_vx := node_vx nd * Fin (- 0.5)\<rparr>
         else nd)"

definition boundaryY :: "ecosystem \<Rightarrow> node \<Rightarrow> node" where
  "boundaryY st nd =
     (let margin = node_radius nd + Fin 10
      in if node_y nd < margin
         then nd\<lparr>node_y := margin, node_vy := node_vy nd * Fin (- 0.5)\<rparr>
         else if height st - margin < node_y nd
         then nd\<lparr>node_y := height st - margin, node_vy := node_vy nd * Fin (- 0.5)\<rparr>
         else nd)"

definition boundary :: "ecosystem \<Rightarrow> node \<Rightarrow> node" where
  "boundary st nd = boundaryY st (boundaryX st nd)"

definition updateNode :: "ecosystem \<Rightarrow> nat \<Rightarrow> ecosystem" where
  "updateNode st i =
     (if draggedNode st = Some i then st
      else st\<lparr>nodes := (nodes st)[i := boundary st (integrate st i)]\<rparr>)"

definition updatePhysics :: "ecosystem \<Rightarrow> ecosystem" where
  "updatePhysics st = fold (\<lambda>i s. updateNode s i) [0..<length (nodes st)] st"

text \<open>The outer loop over any list of indices; \<open>updatePhysics\<close> is the run over all of them.\<close>

definition steps :: "nat list \<Rightarrow> ecosystem \<Rightarrow> ecosystem" where
  "steps js st = fold (\<lambda>i s. updateNode s i) js st"


section \<open>The form-capture utility\<close>

text \<open>
  Text of the document is a JavaScript string, a sequence of 16-bit code units. An
  element of the page has a \<open>value\<close>, an \<open>innerText\<close> and a \<open>style.display\<close>; the page maps
  element ids to elements. \<open>getElementById\<close> of an absent id is \<open>null\<close>, and reading or
  writing a property of \<open>null\<close> throws a \<open>TypeError\<close>.
\<close>

type_synonym jsstring = "16 word list"

record element =
  el_value :: jsstring
  el_innerText :: jsstring
  el_display :: string

type_synonym page = "string \<rightharpoonup> element"

datatype js_error = TypeError

text \<open>
  \<open>String.prototype.trim\<close> removes white space and line terminators from both ends:
  TAB, LF, VT, FF, CR, SP, NBSP, U+1680, U+2000 to U+200A, U+2028, U+2029, U+202F,
  U+205F, U+3000 and U+FEFF.
\<close>

definition isWhiteSpace :: "16 word \<Rightarrow> bool" where
  "isWhiteSpace c \<longleftrightarrow>
     c \<in> {0x9, 0xA, 0xB, 0xC, 0xD, 0x20, 0xA0, 0x1680, 0x2028, 0x2029, 0x202F,
          0x205F, 0x3000, 0xFEFF}
     \<or> (0x2000 \<le> c \<and> c \<le> 0x200A)"

definition trim :: "jsstring \<Rightarrow> jsstring" where
  "trim s = rev (dropWhile isWhiteSpace (rev (dropWhile isWhiteSpace s)))"

text \<open>
  \<open>setVal\<close>. The default text is optional in JavaScript (\<open>None\<close> is \<open>undefined\<close>), and
  \<open>defaultText || ""\<close> is the empty string for \<open>undefined\<close> and for the empty string.
\<close>

definition setVal :: "page \<Rightarrow> string \<Rightarrow> string \<Rightarrow> jsstring option \<Rightarrow> js_error + page" where
  "setVal doc inputId outputId defaultText =
     (case doc inputId of
        None \<Rightarrow> Inl TypeError
      | Some inputEl \<Rightarrow>
          (let inputVal = el_value inputEl
           in case doc outputId of
                None \<Rightarrow> Inl TypeError
              | Some outputEl \<Rightarrow>
                  if trim inputVal \<noteq> []
                  then Inr (doc(outputId \<mapsto>
                         outputEl\<lparr>el_innerText := inputVal, el_display := ''block''\<rparr>))
                  else Inr (doc(outputId \<mapsto>
                         outputEl\<lparr>el_innerText :=
                           (case defaultText of
                              None \<Rightarrow> []
                            | Some d \<Rightarrow> if d \<noteq> [] then d else [])\<rparr>))))"


section \<open>The form-capture utility: the whole update\<close>

text \<open>A string literal of the source in ASCII, as code units.\<close>

definition lit :: "string \<Rightarrow> jsstring" where
  "lit s = map (\<lambda>c. of_nat (of_char c)) s"

text \<open>
  The eighteen calls of \<open>setVal\<close> in \<open>updateCV\<close>, in order: input id, output id, default
  text. Letters outside ASCII are given by their code units.
\<close>

definition cvFields :: "(string \<times> string \<times> jsstring) list" where
  "cvFields =
     [(''inName'', ''outName'', lit ''AD SOYAD''),
      (''inTitle'', ''outTitle'', [0xDC] @ lit ''nvan''),
      (''inEmail'', ''outEmail'', lit ''email@ornek.com''),
      (''inPhone'', ''outPhone'', lit ''+90 555 555 55 55''),
      (''inLink'', ''outLink'', lit ''linkedin.com/in/profil''),
      (''inSummary'', ''outSummary'',
         lit ''K'' @ [0x131] @ lit ''sa kariyer '' @ [0xF6] @ lit ''zeti...''),
      (''inExp1Title'', ''outExp1Title'', lit ''Pozisyon Ad'' @ [0x131]),
      (''inExp1Comp'', ''outExp1Comp'', [0x15E] @ lit ''irket Ad'' @ [0x131]),
      (''inExp1Date'', ''outExp1Date'', lit ''Tarih''),
      (''inExp1Desc'', ''outExp1Desc'',
         [0x130, 0x15F] @ lit '' tan'' @ [0x131] @ lit ''m'' @ [0x131] @ lit ''...''),
      (''inExp2Title'', ''outExp2Title'', lit ''Pozisyon Ad'' @ [0x131]),
      (''inExp2Comp'', ''outExp2Comp'', [0x15E] @ lit ''irket Ad'' @ [0x131]),
      (''inExp2Date'', ''outExp2Date'', lit ''Tarih''),
      (''inExp2Desc'', ''outExp2Desc'',
         [0x130, 0x15F] @ lit '' tan'' @ [0x131] @ lit ''m'' @ [0x131] @ lit ''...''),
      (''inEdu1School'', ''outEdu1School'', [0xDC] @ lit ''niversite Ad'' @ [0x131]),
      (''inEdu1Dept'', ''outEdu1Dept'', lit ''B'' @ [0xF6] @ lit ''l'' @ [0xFC] @ lit ''m''),
      (''inEdu1Date'', ''outEdu1Date'', lit ''Y'' @ [0x131] @ lit ''l''),
      (''inSkills'', ''outSkills'', lit ''Yetenekler...'')]"

text \<open>
  The calls run in sequence on the page as the previous call left it; a \<open>TypeError\<close>
  ends the update, with the page as it stood.
\<close>

fun setVals :: "page \<Rightarrow> (string \<times> string \<times> jsstring) list \<Rightarrow> page \<times> js_error option" where
  "setVals doc [] = (doc, None)"
| "setVals doc ((inputId, outputId, defaultText) # rest) =
     (case setVal doc inputId outputId (Some defaultText) of
        Inl e \<Rightarrow> (doc, Some e)
      | Inr doc' \<Rightarrow> setVals doc' rest)"

definition updateCV :: "page \<Rightarrow> page \<times> js_error option" where
  "updateCV doc = setVals doc cvFields"


section \<open>Notions of the specification\<close>

text \<open>
  What the specification says an output field holds for a triple, on the page before the
  update: the input's value when its trimmed value is not empty, the default text
  otherwise (nothing when the input element is absent).
\<close>

definition shown :: "page \<Rightarrow> string \<times> string \<times> jsstring \<Rightarrow> jsstring option" where
  "shown doc t =
     (case t of (inputId, outputId, defaultText) \<Rightarrow>
        map_option (\<lambda>inputEl. if trim (el_value inputEl) \<noteq> [] then el_value inputEl
                               else defaultText) (doc inputId))"

text \<open>
  The specification's range for a coordinate: a number in
  \<open>[radius + margin, dimension - radius - margin]\<close>, with \<open>m\<close> for \<open>radius + margin\<close> and
  \<open>d\<close> for the dimension.
\<close>

definition inBounds :: "real \<Rightarrow> real \<Rightarrow> jsnum \<Rightarrow> bool" where
  "inBounds m d v = (case v of Fin a \<Rightarrow> m \<le> a \<and> a \<le> d - m | _ \<Rightarrow> False)"

text \<open>
  The repulsion between two points as the specification words it: below the cut-off
  \<open>3 minDistance\<close>, a force of magnitude \<open>repulsionStrength / (distance\<^sup>2 + 1)\<close> along the
  unit vector from \<open>b\<close> to \<open>a\<close>; nothing otherwise.
\<close>

definition specRepulsion :: "real \<Rightarrow> real \<Rightarrow> real \<times> real \<Rightarrow> real \<times> real \<Rightarrow> real \<times> real" where
  "specRepulsion repStrength minDist a b =
     (let dx = fst a - fst b;
          dy = snd a - snd b;
          distance = sqrt (dx\<^sup>2 + dy\<^sup>2)
      in if distance < 3 * minDist
         then (dx / distance * (repStrength / (distance\<^sup>2 + 1)),
               dy / distance * (repStrength / (distance\<^sup>2 + 1)))
         else (0, 0))"



text \<open>
  A node at rest at a finite point inside its own clamp range
  \<open>[radius + 10, dimension - (radius + 10)]\<close> on both axes.
\<close>

definition atRestInside :: "real \<Rightarrow> real \<Rightarrow> node \<Rightarrow> bool" where
  "atRestInside W H nd =
     (case (node_x nd, node_y nd, node_radius nd) of
        (Fin a, Fin b, Fin r) \<Rightarrow>
          node_vx nd = Fin 0 \<and> node_vy nd = Fin 0
          \<and> r + 10 \<le> a \<and> a \<le> W - (r + 10) \<and> r + 10 \<le> b \<and> b \<le> H - (r + 10)
      | _ \<Rightarrow> False)"

text \<open>
  A real number is a binary64 number when rounding leaves it as it is and it is below
  the overflow threshold.
\<close>

definition representable :: "real \<Rightarrow> bool" where
  "representable y \<longleftrightarrow> roundDouble y = y \<and> \<bar>y\<bar> < 2 ^ 1024"


section \<open>Invariants of the pull to the centre\<close>







section \<open>Sample states\<close>

text \<open>A node at a finite point, at rest, with the radius every node is created with.\<close>

definition sampleNode :: "nat \<Rightarrow> real \<Rightarrow> real \<Rightarrow> node" where
  "sampleNode k a b =
     \<lparr>node_id = k, node_x = Fin a, node_y = Fin b, node_vx = Fin 0, node_vy = Fin 0,
      node_radius = Fin 30, node_name = ''Python'', node_category = ''programming'',
      node_color = ''#3b82f6'', node_projects = []\<rparr>"

text \<open>A fresh instance after \<open>setupCanvas\<close> on a canvas of the given size.\<close>

definition canvas :: "real \<Rightarrow> real \<Rightarrow> ecosystem" where
  "canvas w h = setupCanvas newEcosystem (Fin w) (Fin h)"

text \<open>
  The binary64 numbers nearest \<open>123.4\<close> and \<open>0.1\<close>, which is what the literals \<open>123.4\<close> and
  \<open>0.1\<close> denote in JavaScript, and a layout of 800 by 600 with a node at each of them.
\<close>

definition near1234 :: real where
  "near1234 = 4341751515761869 / 2 ^ 45"

definition nearTenth :: real where
  "nearTenth = 3602879701896397 / 2 ^ 55"

definition beforeResize :: ecosystem where
  "beforeResize = (canvas 800 600)\<lparr>nodes := [sampleNode 0 near1234 77, sampleNode 1 nearTenth 480]\<rparr>"

text \<open>A stream of random numbers that puts every node on its circle point.\<close>

definition noJitter :: "nat \<Rightarrow> real" where
  "noJitter k = 0.5"

text \<open>Two nodes at the same point, no connection, nothing dragged, default constants.\<close>

definition coincident :: ecosystem where
  "coincident = (canvas 800 600)\<lparr>nodes := [sampleNode 0 100 100, sampleNode 1 100 100]\<rparr>"

text \<open>One edge from node 0 to node 1, with its endpoints 300 apart, twice the rest length.\<close>

definition stretched :: ecosystem where
  "stretched = (canvas 800 600)\<lparr>nodes := [sampleNode 0 100 300, sampleNode 1 400 300],
      connections := [\<lparr>conn_from = Some 0, conn_to = Some 1\<rparr>]\<rparr>"

text \<open>A canvas narrower than two margins, with one node at its centre.\<close>

definition cramped :: ecosystem where
  "cramped = (canvas 60 60)\<lparr>nodes := [sampleNode 0 30 30]\<rparr>"

text \<open>A node near the left wall, moving towards it.\<close>

definition bouncing :: ecosystem where
  "bouncing = (canvas 800 600)\<lparr>nodes := [(sampleNode 0 45 300)\<lparr>node_vx := Fin (- 20)\<rparr>]\<rparr>"

text \<open>Three nodes: the second is 5 away from the first, the third 400 away.\<close>

definition triangle :: ecosystem where
  "triangle = (canvas 800 600)\<lparr>nodes :=
      [sampleNode 0 100 100, sampleNode 1 103 104, sampleNode 2 500 100]\<rparr>"




text \<open>
  Two nodes at rest at different points: the first pass moves node 0 onto the point of
  node 1.
\<close>

definition meeting :: ecosystem where
  "meeting = (canvas 800 600)\<lparr>repulsionStrength := Fin 0,
      nodes := [sampleNode 0 700 300, sampleNode 1 699.49 300]\<rparr>"

text \<open>A page that holds every element of the table, all empty.\<close>

definition blankElement :: element where
  "blankElement = \<lparr>el_value = [], el_innerText = [], el_display = []\<rparr>"

definition blankPage :: page where
  "blankPage =
     map_of (map (\<lambda>t. (fst t, blankElement)) cvFields
             @ map (\<lambda>t. (fst (snd t), blankElement)) cvFields)"


section \<open>Arithmetic of JavaScript numbers\<close>

lemma jsnum_minus_Fin [simp]: "Fin a - Fin b = Fin (a - b)"
  by (simp add: minus_jsnum_def)

lemma jsnum_add_NaN [simp]: "x + NaN = NaN"
  by (cases x) simp_all

lemma jsnum_minus_NaN [simp]: "x - NaN = NaN" "NaN - x = NaN"
  by (simp_all add: minus_jsnum_def)

lemma jsnum_mult_NaN [simp]: "x * NaN = NaN"
  by (cases x) simp_all

lemma jsnum_div_NaN [simp]: "x / NaN = NaN"
  by (cases x) simp_all

lemma jsnum_less_NaN [simp]: "\<not> x < NaN"
  by (cases x) simp_all

lemma sumsq_not_neg [simp]: "\<not> x * x + y * y < (0::real)"
  by (simp add: not_less)

lemma sqrt_less_iff_sq: "0 \<le> y \<Longrightarrow> sqrt x < y \<longleftrightarrow> x < y * y"
  using real_sqrt_less_iff [of x "y * y"] by simp

lemma sqrt_ge_iff_sq: "0 \<le> y \<Longrightarrow> y \<le> sqrt x \<longleftrightarrow> y * y \<le> x"
  using real_sqrt_le_iff [of "y * y" x] by simp


lemma sumsq_add1_ne0 [simp]: "x * x + y * y + 1 \<noteq> (0::real)" "x * x + 1 \<noteq> (0::real)"
  using zero_le_square [of x] zero_le_square [of y] by linarith+

lemma real_sumsq_eq_0 [simp]: "x * x + y * y = 0 \<longleftrightarrow> x = 0 \<and> y = (0::real)"
  by (simp add: add_nonneg_eq_0_iff)




section \<open>Rounding\<close>

lemma binade_eq:
  assumes "2 powr of_int e \<le> \<bar>y\<bar>" and "\<bar>y\<bar> < 2 powr (of_int e + 1)"
  shows "binade y = e"
proof -
  have pos: "0 < \<bar>y\<bar>" using assms(1) by (smt (verit) powr_gt_zero)
  have "of_int e \<le> log 2 \<bar>y\<bar>" using assms(1) pos by (simp add: le_log_iff)
  moreover have "log 2 \<bar>y\<bar> < of_int e + 1" using assms(2) pos by (simp add: log_less_iff)
  ultimately show ?thesis unfolding binade_def by (rule floor_unique)
qed

lemma binade_le:
  assumes "y \<noteq> 0"
  shows "2 powr of_int (binade y) \<le> \<bar>y\<bar>"
proof -
  have pos: "0 < \<bar>y\<bar>" using assms by simp
  have "of_int (binade y) \<le> log 2 \<bar>y\<bar>" unfolding binade_def by (rule of_int_floor_le)
  then show ?thesis using pos by (simp add: le_log_iff)
qed

lemma roundHalfEven_error: "\<bar>of_int (roundHalfEven z) - z\<bar> \<le> 1 / 2"
  unfolding roundHalfEven_def Let_def by (auto; linarith)

lemma quantum_pos: "0 < quantum y"
  by (simp add: quantum_def)

lemma quantum_le:
  assumes "y \<noteq> 0"
  shows "quantum y \<le> 2 powr (- 52) * \<bar>y\<bar> + 2 powr (- 1074)"
proof (cases "- 1022 \<le> binade y")
  case True
  then have "quantum y = 2 powr (of_int (binade y) - 52)"
    by (simp add: quantum_def max_def)
  also have "\<dots> = 2 powr (- 52) * 2 powr of_int (binade y)"
    by (simp add: powr_diff powr_minus field_simps)
  also have "\<dots> \<le> 2 powr (- 52) * \<bar>y\<bar>"
    using binade_le [OF assms] by (intro mult_left_mono) simp_all
  finally show ?thesis by (smt (verit) powr_gt_zero)
next
  case False
  then have "max (binade y) (- 1022) = - 1022" by simp
  then have "quantum y = 2 powr (- 1074)"
    by (simp add: quantum_def)
  then show ?thesis by (smt (verit) powr_gt_zero mult_nonneg_nonneg abs_ge_zero)
qed

text \<open>
  Rounding moves a number by at most half the spacing of its binade: by the relative
  error \<open>2 ^ (- 53)\<close>, or by \<open>2 ^ (- 1075)\<close> below the normal range.
\<close>

lemma roundDouble_error:
  "\<bar>roundDouble y - y\<bar> \<le> 2 powr (- 53) * \<bar>y\<bar> + 2 powr (- 1075)"
proof (cases "y = 0")
  case True
  then show ?thesis by (simp add: roundDouble_def)
next
  case False
  let ?q = "quantum y"
  have q: "0 < ?q" by (rule quantum_pos)
  have "roundDouble y - y = (of_int (roundHalfEven (y / ?q)) - y / ?q) * ?q"
    using False q by (simp add: roundDouble_def field_simps)
  then have "\<bar>roundDouble y - y\<bar> = \<bar>of_int (roundHalfEven (y / ?q)) - y / ?q\<bar> * ?q"
    using q by (simp add: abs_mult)
  also have "\<dots> \<le> (1 / 2) * ?q"
    using roundHalfEven_error q by (intro mult_right_mono) simp_all
  also have "\<dots> \<le> (1 / 2) * (2 powr (- 52) * \<bar>y\<bar> + 2 powr (- 1074))"
    using quantum_le [OF False] by simp
  also have "\<dots> = 2 powr (- 53) * \<bar>y\<bar> + 2 powr (- 1075)"
  proof -
    have "(2::real) powr (- 52) = 2 powr (- 53 + 1)" by simp
    also have "\<dots> = 2 powr (- 53) * 2 powr 1" by (simp only: powr_add)
    finally have a: "(2::real) powr (- 52) = 2 powr (- 53) * 2" by simp
    have "(2::real) powr (- 1074) = 2 powr (- 1075 + 1)" by simp
    also have "\<dots> = 2 powr (- 1075) * 2 powr 1" by (simp only: powr_add)
    finally have b: "(2::real) powr (- 1074) = 2 powr (- 1075) * 2" by simp
    show ?thesis by (simp add: distrib_left a b)
  qed
  finally show ?thesis .
qed

text \<open>How \<open>roundDouble\<close> is computed once the binade of its argument is known.\<close>

lemma roundDouble_binade:
  assumes "2 powr of_int e \<le> \<bar>y\<bar>" and "\<bar>y\<bar> < 2 powr (of_int e + 1)" and "- 1022 \<le> e"
  shows "roundDouble y
           = of_int (roundHalfEven (y / 2 powr (of_int e - 52))) * 2 powr (of_int e - 52)"
proof -
  have "y \<noteq> 0" using assms(1) by (smt (verit) powr_gt_zero)
  moreover have "quantum y = 2 powr (of_int e - 52)"
    using binade_eq [OF assms(1,2)] assms(3) by (simp add: quantum_def max_def)
  ultimately show ?thesis by (simp add: roundDouble_def)
qed

lemma fl_Fin_eq: "fl (Fin a) = Fin r \<Longrightarrow> r = roundDouble a \<and> \<bar>roundDouble a\<bar> < 2 ^ 1024"
  by (simp add: Let_def split: if_splits)

lemma fl_representable: "representable a \<Longrightarrow> fl (Fin a) = Fin a"
  by (simp add: representable_def)

lemma fl_not_Fin [simp]: "(\<forall>a. v \<noteq> Fin a) \<Longrightarrow> fl v = v"
  by (cases v) simp_all


section \<open>Resize\<close>

text \<open>Without rounding the assignment of the resize callback would change nothing.\<close>

lemma center_roundtrip: "Fin c + (x - Fin c) = x"
  by (cases x) (simp_all add: minus_jsnum_def)

text \<open>
  With rounding it is the identity on the three special values and on a binary64
  number whose offset from the centre is a binary64 number too; on any other finite
  number it is off by the two rounding errors at most.
\<close>

lemma recenter_special:
  assumes "\<forall>a. v \<noteq> Fin a"
  shows "fl (Fin c + fl (v - Fin c)) = v"
  using assms by (cases v) (simp_all add: minus_jsnum_def)

lemma recenter_representable:
  assumes "representable x" and "representable (x - c)"
  shows "fl (Fin c + fl (Fin x - Fin c)) = Fin x"
  using assms by (simp add: fl_representable del: fl.simps)

lemma recenter_error:
  assumes "fl (Fin c + fl (Fin x - Fin c)) = Fin x'"
  shows "\<bar>x' - x\<bar> \<le> 2 powr (- 52) * (\<bar>x\<bar> + \<bar>x - c\<bar>) + 2 powr (- 1073)"
proof -
  define s where "s = roundDouble (x - c)"
  define u :: real where "u = 2 powr (- 53)"
  define n :: real where "n = 2 powr (- 1075)"
  have inner: "fl (Fin (x - c)) = Fin s"
  proof (rule ccontr)
    assume "fl (Fin (x - c)) \<noteq> Fin s"
    then have "fl (Fin (x - c)) = PInf \<or> fl (Fin (x - c)) = NInf"
      by (simp add: s_def Let_def split: if_splits)
    then show False using assms by (auto simp del: fl.simps)
  qed
  have "fl (Fin (c + s)) = Fin x'"
    using assms by (simp add: inner del: fl.simps)
  then have x': "x' = roundDouble (c + s)"
    using fl_Fin_eq by blast
  have u: "0 < u" "u \<le> 1" and n: "0 < n"
    by (simp_all add: u_def n_def powr_minus inverse_eq_divide)
  have "(2::real) powr (- 52) = 2 powr (- 53 + 1)" by simp
  also have "\<dots> = 2 powr (- 53) * 2 powr 1" by (simp only: powr_add)
  finally have u2: "(2::real) powr (- 52) = 2 * u" by (simp add: u_def)
  have "(2::real) powr (- 1073) = 2 powr (- 1075 + 2)" by simp
  also have "\<dots> = 2 powr (- 1075) * 2 powr 2" by (simp only: powr_add)
  finally have n4: "(2::real) powr (- 1073) = 4 * n" by (simp add: n_def)
  define e1 where "e1 = \<bar>s - (x - c)\<bar>"
  have e1: "e1 \<le> u * \<bar>x - c\<bar> + n"
    using roundDouble_error [of "x - c"] by (simp add: e1_def s_def u_def n_def)
  have e1_nonneg: "0 \<le> e1" by (simp add: e1_def)
  have "\<bar>x' - (c + s)\<bar> \<le> u * \<bar>c + s\<bar> + n"
    using roundDouble_error [of "c + s"] by (simp add: x' u_def n_def)
  moreover have "\<bar>c + s\<bar> \<le> \<bar>x\<bar> + e1" unfolding e1_def by argo
  then have "u * \<bar>c + s\<bar> \<le> u * (\<bar>x\<bar> + e1)" using u(1) by simp
  ultimately have e2: "\<bar>x' - (c + s)\<bar> \<le> u * \<bar>x\<bar> + u * e1 + n"
    by (simp add: distrib_left)
  have ue1: "u * e1 \<le> e1" using u e1_nonneg by (simp add: mult_left_le_one_le)
  have "\<bar>x' - x\<bar> \<le> \<bar>x' - (c + s)\<bar> + e1" unfolding e1_def by argo
  also have "\<dots> \<le> u * \<bar>x\<bar> + 2 * e1 + n" using e2 ue1 by simp
  also have "\<dots> \<le> u * \<bar>x\<bar> + 2 * (u * \<bar>x - c\<bar> + n) + n" using e1 by simp
  also have "\<dots> \<le> 2 * u * (\<bar>x\<bar> + \<bar>x - c\<bar>) + 4 * n"
  proof -
    have "0 \<le> u * \<bar>x\<bar>" using u(1) by simp
    then show ?thesis using n by (simp add: distrib_left)
  qed
  finally show ?thesis by (simp add: u2 n4)
qed

text \<open>The roundings of the sample layout, each computed in its binade.\<close>

lemma near1234_nearest: "roundDouble (1234 / 10) = near1234"
  using roundDouble_binade [of 6 "1234 / 10"]
  by (simp add: near1234_def roundHalfEven_def powr_minus)

lemma near1234_representable: "representable near1234"
  using roundDouble_binade [of 6 near1234]
  by (simp add: representable_def near1234_def roundHalfEven_def powr_minus)

lemma nearTenth_nearest: "roundDouble (1 / 10) = nearTenth"
  using roundDouble_binade [of "- 4" "1 / 10"]
  by (simp add: nearTenth_def roundHalfEven_def powr_minus)

lemma nearTenth_representable: "representable nearTenth"
  using roundDouble_binade [of "- 4" nearTenth]
  by (simp add: representable_def nearTenth_def roundHalfEven_def powr_minus)

lemma recenter_near1234: "fl (Fin 512 + fl (Fin near1234 - Fin 512)) = Fin (near1234 - 1 / 2 ^ 45)"
proof -
  have a: "roundDouble (near1234 - 512) = - 6836323496860058 / 2 ^ 44"
    using roundDouble_binade [of 8 "near1234 - 512"]
    by (simp add: near1234_def roundHalfEven_def powr_minus)
  have b: "roundDouble (512 + - 6836323496860058 / 2 ^ 44) = near1234 - 1 / 2 ^ 45"
    using roundDouble_binade [of 6 "512 + - 6836323496860058 / 2 ^ 44"]
    by (simp add: near1234_def roundHalfEven_def powr_minus)
  have "fl (Fin near1234 - Fin 512) = Fin (- 6836323496860058 / 2 ^ 44)"
    by (simp add: a)
  moreover have "fl (Fin (512 + - 6836323496860058 / 2 ^ 44)) = Fin (near1234 - 1 / 2 ^ 45)"
    by (simp only: fl.simps Let_def b) (simp add: near1234_def)
  ultimately show ?thesis by (simp del: fl.simps)
qed

lemma recenter_nearTenth: "fl (Fin 512 + fl (Fin nearTenth - Fin 512)) = Fin (nearTenth + 819 / 2 ^ 55)"
proof -
  have a: "roundDouble (nearTenth - 512) = - 9005440036136550 / 2 ^ 44"
    using roundDouble_binade [of 8 "nearTenth - 512"]
    by (simp add: nearTenth_def roundHalfEven_def powr_minus)
  have b: "roundDouble (512 + - 9005440036136550 / 2 ^ 44) = nearTenth + 819 / 2 ^ 55"
    using roundDouble_binade [of "- 4" "512 + - 9005440036136550 / 2 ^ 44"]
    by (simp add: nearTenth_def roundHalfEven_def powr_minus)
  have "fl (Fin nearTenth - Fin 512) = Fin (- 9005440036136550 / 2 ^ 44)"
    by (simp add: a)
  moreover have "fl (Fin (512 + - 9005440036136550 / 2 ^ 44)) = Fin (nearTenth + 819 / 2 ^ 55)"
    by (simp only: fl.simps Let_def b) (simp add: nearTenth_def)
  ultimately show ?thesis by (simp del: fl.simps)
qed

lemma representable_77: "representable 77" "representable (77 - 768 / 2)"
  using roundDouble_binade [of 6 77] roundDouble_binade [of 8 "- 307"]
  by (simp_all add: representable_def roundHalfEven_def powr_minus)

lemma resize_nth:
  assumes "k < length (nodes st)"
  shows "nodes (resize st (Fin w) (Fin h)) ! k
           = (nodes st ! k)
               \<lparr>node_x := fl (Fin (w / 2) + fl (node_x (nodes st ! k) - Fin (w / 2))),
                node_y := fl (Fin (h / 2) + fl (node_y (nodes st ! k) - Fin (h / 2)))\<rparr>"
  using assms by (simp add: resize_def setupCanvas_def Let_def)

lemma beforeResize_nodes:
  "nodes beforeResize = [sampleNode 0 near1234 77, sampleNode 1 nearTenth 480]"
  by (simp add: beforeResize_def)

lemma resize_sample_x0:
  "node_x (nodes (resize beforeResize (Fin 1024) (Fin 768)) ! 0) = Fin (near1234 - 1 / 2 ^ 45)"
  using recenter_near1234
  by (simp add: resize_nth beforeResize_nodes sampleNode_def del: fl.simps)

lemma resize_sample_x1:
  "node_x (nodes (resize beforeResize (Fin 1024) (Fin 768)) ! 1) = Fin (nearTenth + 819 / 2 ^ 55)"
  using recenter_nearTenth
  by (simp add: resize_nth beforeResize_nodes sampleNode_def del: fl.simps)

text \<open>
  Claim C4, as amended. The resize callback keeps the number of nodes and, of each
  node, every field but \<open>x\<close> and \<open>y\<close>; the scale factors play no part. A coordinate that
  is \<open>NaN\<close> or an infinity stays as it is. A finite coordinate \<open>x\<close> becomes
  \<open>fl (c + fl (x - c))\<close> for the new centre coordinate \<open>c\<close> (half the new width, or half
  the new height for \<open>y\<close>): it is unchanged when \<open>x\<close> and \<open>x - c\<close> are binary64 numbers,
  and in general, if the result is finite, it is within
  \<open>2 ^ (- 52) * (\<bar>x\<bar> + \<bar>x - c\<bar>) + 2 ^ (- 1073)\<close> of \<open>x\<close>.
\<close>

theorem resize_moves_by_rounding:
  assumes "k < length (nodes st)"
  shows "let nd = nodes st ! k; nd' = nodes (resize st (Fin w) (Fin h)) ! k
         in length (nodes (resize st (Fin w) (Fin h))) = length (nodes st)
          \<and> nd' = nd\<lparr>node_x := node_x nd', node_y := node_y nd'\<rparr>
          \<and> ((\<forall>a. node_x nd \<noteq> Fin a) \<longrightarrow> node_x nd' = node_x nd)
          \<and> ((\<forall>b. node_y nd \<noteq> Fin b) \<longrightarrow> node_y nd' = node_y nd)
          \<and> (\<forall>x. node_x nd = Fin x \<and> representable x \<and> representable (x - w / 2)
                \<longrightarrow> node_x nd' = Fin x)
          \<and> (\<forall>y. node_y nd = Fin y \<and> representable y \<and> representable (y - h / 2)
                \<longrightarrow> node_y nd' = Fin y)
          \<and> (\<forall>x x'. node_x nd = Fin x \<and> node_x nd' = Fin x'
                \<longrightarrow> \<bar>x' - x\<bar> \<le> 2 powr (- 52) * (\<bar>x\<bar> + \<bar>x - w / 2\<bar>) + 2 powr (- 1073))
          \<and> (\<forall>y y'. node_y nd = Fin y \<and> node_y nd' = Fin y'
                \<longrightarrow> \<bar>y' - y\<bar> \<le> 2 powr (- 52) * (\<bar>y\<bar> + \<bar>y - h / 2\<bar>) + 2 powr (- 1073))"
proof -
  have len: "length (nodes (resize st (Fin w) (Fin h))) = length (nodes st)"
    by (simp add: resize_def setupCanvas_def Let_def)
  note nth = resize_nth [OF assms, of w h]
  have x: "node_x (nodes (resize st (Fin w) (Fin h)) ! k)
             = fl (Fin (w / 2) + fl (node_x (nodes st ! k) - Fin (w / 2)))"
    and y: "node_y (nodes (resize st (Fin w) (Fin h)) ! k)
             = fl (Fin (h / 2) + fl (node_y (nodes st ! k) - Fin (h / 2)))"
    by (simp_all add: nth del: fl.simps)
  have rest: "nodes (resize st (Fin w) (Fin h)) ! k
                = (nodes st ! k)\<lparr>node_x := node_x (nodes (resize st (Fin w) (Fin h)) ! k),
                                 node_y := node_y (nodes (resize st (Fin w) (Fin h)) ! k)\<rparr>"
    by (simp add: nth del: fl.simps)
  have sx: "(\<forall>a. node_x (nodes st ! k) \<noteq> Fin a)
              \<longrightarrow> node_x (nodes (resize st (Fin w) (Fin h)) ! k) = node_x (nodes st ! k)"
    and sy: "(\<forall>b. node_y (nodes st ! k) \<noteq> Fin b)
              \<longrightarrow> node_y (nodes (resize st (Fin w) (Fin h)) ! k) = node_y (nodes st ! k)"
    unfolding x y using recenter_special by blast+
  have rx: "\<forall>a. node_x (nodes st ! k) = Fin a \<and> representable a \<and> representable (a - w / 2)
              \<longrightarrow> node_x (nodes (resize st (Fin w) (Fin h)) ! k) = Fin a"
    and ry: "\<forall>b. node_y (nodes st ! k) = Fin b \<and> representable b \<and> representable (b - h / 2)
              \<longrightarrow> node_y (nodes (resize st (Fin w) (Fin h)) ! k) = Fin b"
    unfolding x y using recenter_representable by metis+
  have ex: "\<forall>a a'. node_x (nodes st ! k) = Fin a
                \<and> node_x (nodes (resize st (Fin w) (Fin h)) ! k) = Fin a'
              \<longrightarrow> \<bar>a' - a\<bar> \<le> 2 powr (- 52) * (\<bar>a\<bar> + \<bar>a - w / 2\<bar>) + 2 powr (- 1073)"
    and ey: "\<forall>b b'. node_y (nodes st ! k) = Fin b
                \<and> node_y (nodes (resize st (Fin w) (Fin h)) ! k) = Fin b'
              \<longrightarrow> \<bar>b' - b\<bar> \<le> 2 powr (- 52) * (\<bar>b\<bar> + \<bar>b - h / 2\<bar>) + 2 powr (- 1073)"
    unfolding x y using recenter_error by metis+
  show ?thesis
    unfolding Let_def using len rest sx sy rx ry ex ey by (intro conjI)
qed

theorem resize_moves_by_rounding_witness:
  "(0::nat) < length (nodes beforeResize)
   \<and> node_x (nodes beforeResize ! 0) = Fin near1234
   \<and> node_x (nodes (resize beforeResize (Fin 1024) (Fin 768)) ! 0) = Fin (near1234 - 1 / 2 ^ 45)
   \<and> \<bar>(near1234 - 1 / 2 ^ 45) - near1234\<bar>
       \<le> 2 powr (- 52) * (\<bar>near1234\<bar> + \<bar>near1234 - 1024 / 2\<bar>) + 2 powr (- 1073)
   \<and> node_y (nodes beforeResize ! 0) = Fin 77
   \<and> representable 77 \<and> representable (77 - 768 / 2)
   \<and> node_y (nodes (resize beforeResize (Fin 1024) (Fin 768)) ! 0) = Fin 77
   \<and> node_name (nodes (resize beforeResize (Fin 1024) (Fin 768)) ! 0) = ''Python''"
proof -
  have k: "(0::nat) < length (nodes beforeResize)"
    and x0: "node_x (nodes beforeResize ! 0) = Fin near1234"
    and y0: "node_y (nodes beforeResize ! 0) = Fin 77"
    and n0: "node_name (nodes beforeResize ! 0) = ''Python''"
    by (simp_all add: beforeResize_nodes sampleNode_def)
  note t = resize_moves_by_rounding [OF k, of 1024 768, unfolded Let_def]
  from t have "\<forall>x x'. node_x (nodes beforeResize ! 0) = Fin x
                 \<and> node_x (nodes (resize beforeResize (Fin 1024) (Fin 768)) ! 0) = Fin x'
               \<longrightarrow> \<bar>x' - x\<bar> \<le> 2 powr (- 52) * (\<bar>x\<bar> + \<bar>x - 1024 / 2\<bar>) + 2 powr (- 1073)"
    by (intro allI impI) blast
  then have bound: "\<bar>(near1234 - 1 / 2 ^ 45) - near1234\<bar>
       \<le> 2 powr (- 52) * (\<bar>near1234\<bar> + \<bar>near1234 - 1024 / 2\<bar>) + 2 powr (- 1073)"
    using x0 resize_sample_x0 by blast
  from t have "\<forall>y. node_y (nodes beforeResize ! 0) = Fin y \<and> representable y
                 \<and> representable (y - 768 / 2)
               \<longrightarrow> node_y (nodes (resize beforeResize (Fin 1024) (Fin 768)) ! 0) = Fin y"
    by blast
  then have y': "node_y (nodes (resize beforeResize (Fin 1024) (Fin 768)) ! 0) = Fin 77"
    using y0 representable_77 by blast
  from t have "nodes (resize beforeResize (Fin 1024) (Fin 768)) ! 0
                 = (nodes beforeResize ! 0)
                     \<lparr>node_x := node_x (nodes (resize beforeResize (Fin 1024) (Fin 768)) ! 0),
                      node_y := node_y (nodes (resize beforeResize (Fin 1024) (Fin 768)) ! 0)\<rparr>"
    by blast
  then have "node_name (nodes (resize beforeResize (Fin 1024) (Fin 768)) ! 0)
               = node_name (nodes beforeResize ! 0)"
    by (metis node.select_convs(7) node.surjective node.update_convs(2,3))
  then have n': "node_name (nodes (resize beforeResize (Fin 1024) (Fin 768)) ! 0) = ''Python''"
    using n0 by simp
  show ?thesis
    using k x0 resize_sample_x0 bound y0 representable_77 y' n' by (intro conjI)
qed

text \<open>
  Claim C4 as the specification words it, that every coordinate is exactly unchanged,
  fails on ordinary positions. On a layout resized to 1024 by 768 the centre is at
  \<open>x = 512\<close>. A node at \<open>123.4\<close> has the offset \<open>- 388.6\<close>, which lies midway between two
  binary64 numbers of its binade and rounds away from zero; adding \<open>512\<close> back gives
  the binary64 number just below the one the node started at
  (\<open>123.39999999999998\<close>). A node at \<open>0.1\<close> comes back as \<open>0.10000000000002274\<close>, 819
  units in the last place away.
\<close>

theorem resize_moves_node_counterexample:
  "roundDouble (1234 / 10) = near1234 \<and> representable near1234
   \<and> node_x (nodes beforeResize ! 0) = Fin near1234
   \<and> node_x (nodes (resize beforeResize (Fin 1024) (Fin 768)) ! 0) = Fin (near1234 - 1 / 2 ^ 45)
   \<and> roundDouble (1 / 10) = nearTenth \<and> representable nearTenth
   \<and> node_x (nodes beforeResize ! 1) = Fin nearTenth
   \<and> node_x (nodes (resize beforeResize (Fin 1024) (Fin 768)) ! 1) = Fin (nearTenth + 819 / 2 ^ 55)
   \<and> nodes (resize beforeResize (Fin 1024) (Fin 768)) \<noteq> nodes beforeResize"
proof -
  have x0: "node_x (nodes beforeResize ! 0) = Fin near1234"
    and x1: "node_x (nodes beforeResize ! 1) = Fin nearTenth"
    by (simp_all add: beforeResize_nodes sampleNode_def)
  have "node_x (nodes (resize beforeResize (Fin 1024) (Fin 768)) ! 0)
          \<noteq> node_x (nodes beforeResize ! 0)"
    by (simp add: resize_sample_x0 x0)
  then have ne: "nodes (resize beforeResize (Fin 1024) (Fin 768)) \<noteq> nodes beforeResize"
    by metis
  show ?thesis
    using near1234_nearest near1234_representable x0 resize_sample_x0
      nearTenth_nearest nearTenth_representable x1 resize_sample_x1 ne
    by (intro conjI)
qed


section \<open>Dragging\<close>

text \<open>
  Claim C6. A \<open>mousemove\<close> event handled while node \<open>d\<close> is the dragged node leaves that
  node at the pointer coordinates (the client coordinates less the canvas origin, which
  the handler also stores in \<open>mouseX\<close>, \<open>mouseY\<close>) with both velocity components zero,
  whatever its fields were before.
\<close>

theorem drag_move_pins_node:
  assumes "draggedNode st = Some d" and "d < length (nodes st)"
  shows "mouseX (mousemove st clientX clientY rectLeft rectTop) = clientX - rectLeft
       \<and> mouseY (mousemove st clientX clientY rectLeft rectTop) = clientY - rectTop
       \<and> node_x (nodes (mousemove st clientX clientY rectLeft rectTop) ! d) = clientX - rectLeft
       \<and> node_y (nodes (mousemove st clientX clientY rectLeft rectTop) ! d) = clientY - rectTop
       \<and> node_vx (nodes (mousemove st clientX clientY rectLeft rectTop) ! d) = Fin 0
       \<and> node_vy (nodes (mousemove st clientX clientY rectLeft rectTop) ! d) = Fin 0"
  using assms by (simp add: mousemove_def Let_def)

theorem drag_move_pins_node_witness:
  "node_x (nodes (mousemove ((canvas 800 600)\<lparr>nodes :=
      [(sampleNode 0 100 100)\<lparr>node_vx := Fin 3, node_vy := Fin (- 2)\<rparr>, sampleNode 1 400 300],
      draggedNode := Some 0\<rparr>) (Fin 120) (Fin 130) (Fin 10) (Fin 20)) ! 0) = Fin 110
   \<and> node_y (nodes (mousemove ((canvas 800 600)\<lparr>nodes :=
      [(sampleNode 0 100 100)\<lparr>node_vx := Fin 3, node_vy := Fin (- 2)\<rparr>, sampleNode 1 400 300],
      draggedNode := Some 0\<rparr>) (Fin 120) (Fin 130) (Fin 10) (Fin 20)) ! 0) = Fin 110
   \<and> node_vx (nodes (mousemove ((canvas 800 600)\<lparr>nodes :=
      [(sampleNode 0 100 100)\<lparr>node_vx := Fin 3, node_vy := Fin (- 2)\<rparr>, sampleNode 1 400 300],
      draggedNode := Some 0\<rparr>) (Fin 120) (Fin 130) (Fin 10) (Fin 20)) ! 0) = Fin 0"
  using drag_move_pins_node [of "(canvas 800 600)\<lparr>nodes :=
      [(sampleNode 0 100 100)\<lparr>node_vx := Fin 3, node_vy := Fin (- 2)\<rparr>, sampleNode 1 400 300],
      draggedNode := Some 0\<rparr>" 0 "Fin 120" "Fin 130" "Fin 10" "Fin 20"]
  by simp


section \<open>Hit-testing\<close>

lemma scanNodes_None: "scanNodes ns px py k = None \<longleftrightarrow> (\<forall>j<k. \<not> hit (ns ! j) px py)"
  by (induction k) (auto simp: less_Suc_eq)

lemma scanNodes_Some:
  "scanNodes ns px py k = Some i \<longleftrightarrow>
     i < k \<and> hit (ns ! i) px py \<and> (\<forall>j. i < j \<and> j < k \<longrightarrow> \<not> hit (ns ! j) px py)"
proof (induction k)
  case 0
  then show ?case by simp
next
  case (Suc k)
  show ?case
  proof (cases "hit (ns ! k) px py")
    case True
    then show ?thesis
      by (auto simp: less_Suc_eq)
  next
    case False
    then show ?thesis
      using Suc by (auto simp: less_Suc_eq)
  qed
qed

lemma hit_Fin:
  "hit (nd\<lparr>node_x := Fin a, node_y := Fin b, node_radius := Fin r\<rparr>) (Fin p) (Fin q)
     \<longleftrightarrow> sqrt ((p - a)\<^sup>2 + (q - b)\<^sup>2) < r"
  by (simp add: hit_def Let_def power2_eq_square)

lemma getNodeAtPosition_Max:
  "getNodeAtPosition st px py =
     (if \<exists>j<length (nodes st). hit (nodes st ! j) px py
      then Some (Max {j. j < length (nodes st) \<and> hit (nodes st ! j) px py})
      else None)"
proof (cases "\<exists>j<length (nodes st). hit (nodes st ! j) px py")
  case False
  then have "scanNodes (nodes st) px py (length (nodes st)) = None"
    unfolding scanNodes_None by blast
  with False show ?thesis
    unfolding getNodeAtPosition_def by (simp only: if_False)
next
  case True
  let ?S = "{j. j < length (nodes st) \<and> hit (nodes st ! j) px py}"
  have fin: "finite ?S" by simp
  have ne: "?S \<noteq> {}" using True by auto
  have mem: "Max ?S \<in> ?S" using Max_in [OF fin ne] .
  have top: "\<And>j. j \<in> ?S \<Longrightarrow> j \<le> Max ?S" using Max_ge [OF fin] .
  have "scanNodes (nodes st) px py (length (nodes st)) = Some (Max ?S)"
    unfolding scanNodes_Some using mem top by (auto simp: not_less [symmetric])
  with True show ?thesis
    by (simp add: getNodeAtPosition_def)
qed

text \<open>
  Claim C7. \<open>hit nd px py\<close> is the test of the source: the distance from the point to the
  centre of \<open>nd\<close> is strictly below the radius of \<open>nd\<close>; on finite values that is the
  Euclidean distance (second conjunct). The hit-test returns the greatest index among
  the nodes that pass the test, and \<open>null\<close> when no node passes it.
\<close>

theorem hit_test_topmost:
  "getNodeAtPosition st px py =
     (if \<exists>j<length (nodes st). hit (nodes st ! j) px py
      then Some (Max {j. j < length (nodes st) \<and> hit (nodes st ! j) px py})
      else None)
   \<and> (hit (nd\<lparr>node_x := Fin a, node_y := Fin b, node_radius := Fin r\<rparr>) (Fin p) (Fin q)
        \<longleftrightarrow> sqrt ((p - a)\<^sup>2 + (q - b)\<^sup>2) < r)"
  by (rule conjI [OF getNodeAtPosition_Max hit_Fin])

theorem hit_test_topmost_witness:
  "(\<exists>j<length (nodes ((canvas 800 600)\<lparr>nodes := [sampleNode 0 100 100, sampleNode 1 110 100]\<rparr>)).
      hit (nodes ((canvas 800 600)\<lparr>nodes := [sampleNode 0 100 100, sampleNode 1 110 100]\<rparr>) ! j)
        (Fin 105) (Fin 100))
   \<and> hit (sampleNode 0 100 100) (Fin 105) (Fin 100)
   \<and> hit (sampleNode 1 110 100) (Fin 105) (Fin 100)
   \<and> Max {j. j < length (nodes ((canvas 800 600)\<lparr>nodes := [sampleNode 0 100 100, sampleNode 1 110 100]\<rparr>))
            \<and> hit (nodes ((canvas 800 600)\<lparr>nodes := [sampleNode 0 100 100, sampleNode 1 110 100]\<rparr>) ! j)
                (Fin 105) (Fin 100)} = 1
   \<and> getNodeAtPosition ((canvas 800 600)\<lparr>nodes := [sampleNode 0 100 100, sampleNode 1 110 100]\<rparr>)
        (Fin 105) (Fin 100) = Some 1
   \<and> getNodeAtPosition ((canvas 800 600)\<lparr>nodes := [sampleNode 0 100 100, sampleNode 1 110 100]\<rparr>)
        (Fin 500) (Fin 500) = None"
proof -
  let ?st = "(canvas 800 600)\<lparr>nodes := [sampleNode 0 100 100, sampleNode 1 110 100]\<rparr>"
  have h0: "hit (sampleNode 0 100 100) (Fin 105) (Fin 100)"
    by (simp add: hit_def sampleNode_def Let_def sqrt_less_iff_sq)
  have h1: "hit (sampleNode 1 110 100) (Fin 105) (Fin 100)"
    by (simp add: hit_def sampleNode_def Let_def sqrt_less_iff_sq)
  have n0: "\<not> hit (sampleNode 0 100 100) (Fin 500) (Fin 500)"
    by (simp add: hit_def sampleNode_def Let_def sqrt_less_iff_sq)
  have n1: "\<not> hit (sampleNode 1 110 100) (Fin 500) (Fin 500)"
    by (simp add: hit_def sampleNode_def Let_def sqrt_less_iff_sq)
  have e: "getNodeAtPosition ?st (Fin 105) (Fin 100) = Some 1"
    using h1 by (simp add: getNodeAtPosition_def)
  have e': "getNodeAtPosition ?st (Fin 500) (Fin 500) = None"
    using n0 n1 by (simp add: getNodeAtPosition_def)
  have ex: "\<exists>j<length (nodes ?st). hit (nodes ?st ! j) (Fin 105) (Fin 100)"
    using h0 by (intro exI [of _ 0]) simp
  from hit_test_topmost [of ?st "Fin 105" "Fin 100"] ex e
  have "Max {j. j < length (nodes ?st) \<and> hit (nodes ?st ! j) (Fin 105) (Fin 100)} = 1"
    by simp
  with ex h0 h1 e e' show ?thesis by blast
qed


section \<open>The form-capture utility: properties\<close>

lemma trim_empty_iff: "trim s = [] \<longleftrightarrow> (\<forall>c\<in>set s. isWhiteSpace c)"
proof
  assume "trim s = []"
  then have a: "\<forall>c\<in>set (dropWhile isWhiteSpace s). isWhiteSpace c"
    by (simp add: trim_def dropWhile_eq_Nil_conv)
  have "dropWhile isWhiteSpace s = []"
  proof (rule ccontr)
    assume ne: "dropWhile isWhiteSpace s \<noteq> []"
    then have "\<not> isWhiteSpace (hd (dropWhile isWhiteSpace s))"
      by (rule hd_dropWhile)
    moreover have "hd (dropWhile isWhiteSpace s) \<in> set (dropWhile isWhiteSpace s)"
      using ne by simp
    ultimately show False using a by blast
  qed
  then show "\<forall>c\<in>set s. isWhiteSpace c"
    by (simp add: dropWhile_eq_Nil_conv)
next
  assume "\<forall>c\<in>set s. isWhiteSpace c"
  then have d: "dropWhile isWhiteSpace s = []"
    by (simp add: dropWhile_eq_Nil_conv)
  show "trim s = []"
    unfolding trim_def d by simp
qed

lemma setVal_output:
  assumes "doc inputId = Some inputEl" and "doc outputId = Some outputEl"
  shows "\<exists>doc'. setVal doc inputId outputId (Some defaultText) = Inr doc'
           \<and> map_option el_innerText (doc' outputId) =
               Some (if trim (el_value inputEl) \<noteq> [] then el_value inputEl else defaultText)
           \<and> (trim (el_value inputEl) = [] \<longleftrightarrow> (\<forall>c\<in>set (el_value inputEl). isWhiteSpace c))"
  using assms by (simp add: setVal_def Let_def trim_empty_iff)

lemma setVal_value:
  "setVal doc i o' d = Inr doc' \<Longrightarrow> map_option el_value (doc' k) = map_option el_value (doc k)"
  by (auto simp: setVal_def Let_def split: option.splits if_splits)

lemma setVal_dom:
  "setVal doc i o' d = Inr doc' \<Longrightarrow> dom doc' = dom doc"
  by (auto simp: setVal_def Let_def split: option.splits if_splits)

lemma setVal_other:
  "setVal doc i o' d = Inr doc' \<Longrightarrow> k \<noteq> o' \<Longrightarrow> doc' k = doc k"
  by (auto simp: setVal_def Let_def split: option.splits if_splits)


lemma setVals_outputs:
  assumes "distinct (map (\<lambda>t. fst (snd t)) ts)"
    and "\<forall>t\<in>set ts. fst t \<in> dom doc \<and> fst (snd t) \<in> dom doc"
  shows "\<exists>doc'. setVals doc ts = (doc', None)
           \<and> dom doc' = dom doc
           \<and> (\<forall>k. map_option el_value (doc' k) = map_option el_value (doc k))
           \<and> (\<forall>k. k \<notin> set (map (\<lambda>t. fst (snd t)) ts) \<longrightarrow> doc' k = doc k)
           \<and> (\<forall>t\<in>set ts. map_option el_innerText (doc' (fst (snd t))) = shown doc t)"
  using assms
proof (induction ts arbitrary: doc)
  case Nil
  then show ?case by simp
next
  case (Cons t ts)
  obtain i o' d where t: "t = (i, o', d)" by (cases t) auto
  from Cons.prems t obtain inputEl outputEl
    where i: "doc i = Some inputEl" and o: "doc o' = Some outputEl"
    by auto
  from setVal_output [OF i o, of d] obtain doc1
    where s1: "setVal doc i o' (Some d) = Inr doc1"
      and out1: "map_option el_innerText (doc1 o') =
                   Some (if trim (el_value inputEl) \<noteq> [] then el_value inputEl else d)"
    by blast
  have dom1: "dom doc1 = dom doc" using s1 by (rule setVal_dom)
  have val1: "\<And>k. map_option el_value (doc1 k) = map_option el_value (doc k)"
    using s1 by (rule setVal_value)
  have oth1: "\<And>k. k \<noteq> o' \<Longrightarrow> doc1 k = doc k"
    using s1 by (rule setVal_other)
  have shown1: "\<And>u. shown doc1 u = shown doc u"
  proof -
    fix u :: "string \<times> string \<times> jsstring"
    obtain a b c where u: "u = (a, b, c)" by (cases u) auto
    from val1 [of a] show "shown doc1 u = shown doc u"
      by (cases "doc1 a"; cases "doc a") (auto simp: shown_def u)
  qed
  have d': "distinct (map (\<lambda>t. fst (snd t)) ts)" and notin: "o' \<notin> set (map (\<lambda>t. fst (snd t)) ts)"
    using Cons.prems(1) t by auto
  have pre: "\<forall>t\<in>set ts. fst t \<in> dom doc1 \<and> fst (snd t) \<in> dom doc1"
    using Cons.prems(2) dom1 by simp
  from Cons.IH [OF d' pre] obtain doc2
    where s2: "setVals doc1 ts = (doc2, None)"
      and dom2: "dom doc2 = dom doc1"
      and val2: "\<forall>k. map_option el_value (doc2 k) = map_option el_value (doc1 k)"
      and oth2: "\<forall>k. k \<notin> set (map (\<lambda>t. fst (snd t)) ts) \<longrightarrow> doc2 k = doc1 k"
      and out2: "\<forall>t\<in>set ts. map_option el_innerText (doc2 (fst (snd t))) = shown doc1 t"
    by blast
  have r: "setVals doc (t # ts) = (doc2, None)"
    using s1 s2 by (simp add: t)
  have head: "map_option el_innerText (doc2 (fst (snd t))) = shown doc t"
    using oth2 notin out1 i by (simp add: t shown_def)
  have "\<forall>k. k \<notin> set (map (\<lambda>t. fst (snd t)) (t # ts)) \<longrightarrow> doc2 k = doc k"
    using oth2 oth1 by (simp add: t)
  moreover have "\<forall>k. map_option el_value (doc2 k) = map_option el_value (doc k)"
    using val2 val1 by simp
  moreover have "\<forall>u\<in>set (t # ts). map_option el_innerText (doc2 (fst (snd u))) = shown doc u"
    using head out2 shown1 by simp
  ultimately show ?case
    using r dom2 dom1 by simp
qed

lemma cvFields_distinct: "distinct (map (\<lambda>t. fst (snd t)) cvFields)"
  by (simp add: cvFields_def)


text \<open>
  Claim C10. One call of \<open>setVal\<close> on a page that holds both elements succeeds and
  leaves in the output field the input's value when its trimmed value is not empty, and
  the default text otherwise; the trimmed value is empty exactly when the value is empty
  or white space only. After one \<open>updateCV\<close> on a page that holds every element of the
  table, this is so for each of the eighteen triples at once: no later call overwrites
  an earlier output.
\<close>

theorem form_capture_outputs:
  "(doc inputId = Some inputEl \<and> doc outputId = Some outputEl \<longrightarrow>
      (\<exists>doc'. setVal doc inputId outputId (Some defaultText) = Inr doc'
         \<and> map_option el_innerText (doc' outputId) =
             Some (if trim (el_value inputEl) \<noteq> [] then el_value inputEl else defaultText)))
   \<and> (trim s = [] \<longleftrightarrow> (\<forall>c\<in>set s. isWhiteSpace c))
   \<and> ((\<forall>t\<in>set cvFields. fst t \<in> dom doc \<and> fst (snd t) \<in> dom doc) \<longrightarrow>
        (\<exists>doc'. updateCV doc = (doc', None)
           \<and> (\<forall>t\<in>set cvFields. map_option el_innerText (doc' (fst (snd t))) = shown doc t)))"
proof (intro conjI impI)
  assume "doc inputId = Some inputEl \<and> doc outputId = Some outputEl"
  then show "\<exists>doc'. setVal doc inputId outputId (Some defaultText) = Inr doc'
         \<and> map_option el_innerText (doc' outputId) =
             Some (if trim (el_value inputEl) \<noteq> [] then el_value inputEl else defaultText)"
    using setVal_output [of doc inputId inputEl outputId outputEl defaultText] by blast
next
  show "trim s = [] \<longleftrightarrow> (\<forall>c\<in>set s. isWhiteSpace c)"
    by (rule trim_empty_iff)
next
  assume "\<forall>t\<in>set cvFields. fst t \<in> dom doc \<and> fst (snd t) \<in> dom doc"
  from setVals_outputs [OF cvFields_distinct this]
  show "\<exists>doc'. updateCV doc = (doc', None)
           \<and> (\<forall>t\<in>set cvFields. map_option el_innerText (doc' (fst (snd t))) = shown doc t)"
    unfolding updateCV_def by blast
qed

lemma blankPage_dom: "\<forall>t\<in>set cvFields. fst t \<in> dom blankPage \<and> fst (snd t) \<in> dom blankPage"
  by (simp add: blankPage_def cvFields_def dom_map_of_conv_image_fst)

theorem form_capture_outputs_witness:
  "(\<exists>doc'. updateCV (blankPage(''inName'' \<mapsto> blankElement\<lparr>el_value := lit '' Ada ''\<rparr>))
              = (doc', None)
      \<and> map_option el_innerText (doc' ''outName'') = Some (lit '' Ada '')
      \<and> map_option el_innerText (doc' ''outExp1Date'') = Some (lit ''Tarih''))
   \<and> trim (lit '' Ada '') = lit ''Ada''
   \<and> (\<exists>doc'. setVal (blankPage(''inName'' \<mapsto> blankElement\<lparr>el_value := lit ''  ''\<rparr>))
                ''inName'' ''outName'' (Some (lit ''AD SOYAD'')) = Inr doc'
         \<and> map_option el_innerText (doc' ''outName'') = Some (lit ''AD SOYAD''))"
proof -
  let ?doc = "blankPage(''inName'' \<mapsto> blankElement\<lparr>el_value := lit '' Ada ''\<rparr>)"
  let ?doc2 = "blankPage(''inName'' \<mapsto> blankElement\<lparr>el_value := lit ''  ''\<rparr>)"
  have dom: "\<forall>t\<in>set cvFields. fst t \<in> dom ?doc \<and> fst (snd t) \<in> dom ?doc"
    using blankPage_dom by simp
  have tr: "trim (lit '' Ada '') = lit ''Ada''"
    by (simp add: trim_def lit_def isWhiteSpace_def)
  have tr2: "trim (lit ''  '') = []"
    by (simp add: trim_def lit_def isWhiteSpace_def)
  have m1: "(''inName'', ''outName'', lit ''AD SOYAD'') \<in> set cvFields"
    by (simp add: cvFields_def)
  have m2: "(''inExp1Date'', ''outExp1Date'', lit ''Tarih'') \<in> set cvFields"
    by (simp add: cvFields_def)
  have b: "blankPage ''inExp1Date'' = Some blankElement" "blankPage ''outName'' = Some blankElement"
    by (simp_all add: blankPage_def cvFields_def)
  have s1: "shown ?doc (''inName'', ''outName'', lit ''AD SOYAD'') = Some (lit '' Ada '')"
    using tr by (simp add: shown_def lit_def)
  have s2: "shown ?doc (''inExp1Date'', ''outExp1Date'', lit ''Tarih'') = Some (lit ''Tarih'')"
    by (simp add: shown_def b trim_def blankElement_def)
  from form_capture_outputs [of ?doc] dom obtain doc'
    where u: "updateCV ?doc = (doc', None)"
      and a: "\<forall>t\<in>set cvFields. map_option el_innerText (doc' (fst (snd t))) = shown ?doc t"
    by blast
  from a m1 s1 have o1: "map_option el_innerText (doc' ''outName'') = Some (lit '' Ada '')"
    by fastforce
  from a m2 s2 have o2: "map_option el_innerText (doc' ''outExp1Date'') = Some (lit ''Tarih'')"
    by fastforce
  have "?doc2 ''inName'' = Some (blankElement\<lparr>el_value := lit ''  ''\<rparr>)
        \<and> ?doc2 ''outName'' = Some blankElement"
    using b by simp
  with form_capture_outputs
    [of ?doc2 "''inName''" "blankElement\<lparr>el_value := lit ''  ''\<rparr>" "''outName''" blankElement
        "lit ''AD SOYAD''"] tr2
  have "\<exists>doc'. setVal ?doc2 ''inName'' ''outName'' (Some (lit ''AD SOYAD'')) = Inr doc'
         \<and> map_option el_innerText (doc' ''outName'') = Some (lit ''AD SOYAD'')"
    by simp
  with u o1 o2 tr show ?thesis by blast
qed


section \<open>Initialisation\<close>

lemma findFrom_None: "findFrom k P ns = None \<longleftrightarrow> (\<forall>n\<in>set ns. \<not> P n)"
  by (induction ns arbitrary: k) auto

lemma findFrom_Some:
  "findFrom k P ns = Some i \<longleftrightarrow>
     k \<le> i \<and> i - k < length ns \<and> P (ns ! (i - k)) \<and> (\<forall>j<i - k. \<not> P (ns ! j))"
proof (induction ns arbitrary: k)
  case Nil
  then show ?case by simp
next
  case (Cons n ns)
  show ?case
  proof (cases "P n")
    case True
    then show ?thesis by (auto simp: nth_Cons')
  next
    case False
    have "findFrom k P (n # ns) = Some i \<longleftrightarrow> findFrom (Suc k) P ns = Some i"
      using False by simp
    also have "\<dots> \<longleftrightarrow> Suc k \<le> i \<and> i - Suc k < length ns \<and> P (ns ! (i - Suc k))
        \<and> (\<forall>j<i - Suc k. \<not> P (ns ! j))"
      by (rule Cons.IH)
    also have "\<dots> \<longleftrightarrow> k \<le> i \<and> i - k < length (n # ns) \<and> P ((n # ns) ! (i - k))
        \<and> (\<forall>j<i - k. \<not> P ((n # ns) ! j))"
    proof (cases "i \<le> k")
      case True
      then show ?thesis using False by auto
    next
      case gt: False
      then obtain m where m: "i - k = Suc m" "i - Suc k = m"
        by (metis Suc_diff_Suc not_le)
      have "(\<forall>j<Suc m. \<not> P ((n # ns) ! j)) \<longleftrightarrow> (\<forall>j<m. \<not> P (ns ! j))"
        using False by (auto simp: less_Suc_eq_0_disj)
      then show ?thesis
        using gt m by auto
    qed
    finally show ?thesis .
  qed
qed

lemma findNode_None: "findNode P ns = None \<longleftrightarrow> (\<forall>n\<in>set ns. \<not> P n)"
  by (simp add: findNode_def findFrom_None)

lemma findNode_Some:
  "findNode P ns = Some i \<longleftrightarrow> i < length ns \<and> P (ns ! i) \<and> (\<forall>j<i. \<not> P (ns ! j))"
  by (simp add: findNode_def findFrom_Some)

lemma initialize_names:
  "map node_name (nodes (initializeSkillsWith st sks cmap rnd)) = map skill_name sks"
  by (auto simp: initializeSkillsWith_def Let_def makeNode_def enumerate_eq_zip
      intro!: nth_equalityI)

lemma initialize_connections:
  "connections (initializeSkillsWith st sks cmap rnd)
     = map (makeConnection (nodes (initializeSkillsWith st sks cmap rnd))) cmap"
  by (simp add: initializeSkillsWith_def Let_def)

lemma findNode_name_None:
  "findNode (\<lambda>n. node_name n = s) ns = None \<longleftrightarrow> s \<notin> set (map node_name ns)"
  by (auto simp: findNode_None)

lemma findNode_name_Some:
  "findNode (\<lambda>n. node_name n = s) ns = Some i \<longleftrightarrow>
     i < length ns \<and> map node_name ns ! i = s \<and> (\<forall>j<i. map node_name ns ! j \<noteq> s)"
  by (auto simp: findNode_Some)

text \<open>
  Claim C2, as amended. Initialisation never rejects a configuration: it builds one edge
  for every pair of the connection list, and an endpoint of an edge is missing exactly
  when its name is not the name of a catalogue entry; a name of the catalogue resolves
  to the first node of that name.
\<close>

theorem initialize_resolves_names:
  "length (connections (initializeSkillsWith st sks cmap rnd)) = length cmap
   \<and> map node_name (nodes (initializeSkillsWith st sks cmap rnd)) = map skill_name sks
   \<and> (\<forall>k<length cmap.
        (conn_from (connections (initializeSkillsWith st sks cmap rnd) ! k) = None
           \<longleftrightarrow> fst (cmap ! k) \<notin> set (map skill_name sks))
      \<and> (conn_to (connections (initializeSkillsWith st sks cmap rnd) ! k) = None
           \<longleftrightarrow> snd (cmap ! k) \<notin> set (map skill_name sks))
      \<and> (\<forall>i. conn_from (connections (initializeSkillsWith st sks cmap rnd) ! k) = Some i
           \<longleftrightarrow> i < length sks \<and> skill_name (sks ! i) = fst (cmap ! k)
               \<and> (\<forall>j<i. skill_name (sks ! j) \<noteq> fst (cmap ! k)))
      \<and> (\<forall>i. conn_to (connections (initializeSkillsWith st sks cmap rnd) ! k) = Some i
           \<longleftrightarrow> i < length sks \<and> skill_name (sks ! i) = snd (cmap ! k)
               \<and> (\<forall>j<i. skill_name (sks ! j) \<noteq> snd (cmap ! k))))"
proof -
  let ?st = "initializeSkillsWith st sks cmap rnd"
  have names: "map node_name (nodes ?st) = map skill_name sks"
    by (rule initialize_names)
  have len: "length (nodes ?st) = length sks"
    using arg_cong [OF names, of length] by simp
  have conns: "connections ?st = map (makeConnection (nodes ?st)) cmap"
    by (rule initialize_connections)
  have nth: "\<And>j. j < length sks \<Longrightarrow> map node_name (nodes ?st) ! j = skill_name (sks ! j)"
    using names by simp
  show ?thesis
    unfolding conns
    apply (intro conjI allI impI)
         apply simp
        apply (rule names)
       apply (simp add: makeConnection_def split_beta findNode_name_None names)
      apply (simp add: makeConnection_def split_beta findNode_name_None names)
     apply (simp add: makeConnection_def split_beta findNode_name_Some len)
     apply (simp add: names cong: conj_cong)
    apply (simp add: makeConnection_def split_beta findNode_name_Some len)
    apply (simp add: names cong: conj_cong)
    done
qed

text \<open>The tables of the source resolve completely: nine edges, no endpoint missing.\<close>

lemma initializeSkills_connections: "map (\<lambda>c. (conn_from c, conn_to c)) (connections (initializeSkills st rnd)) =
  [(Some 0, Some 6), (Some 0, Some 1), (Some 1, Some 3), (Some 2, Some 4), (Some 2, Some 7),
   (Some 5, Some 4), (Some 3, Some 7), (Some 4, Some 6), (Some 1, Some 7)]"
  by (simp add: initializeSkills_def initializeSkillsWith_def Let_def skills_def connectionMap_def
     makeConnection_def findNode_def makeNode_def)

theorem initialize_resolves_names_witness:
  "0 < length [(''Python'', ''Rust'')]
   \<and> ''Rust'' \<notin> set (map skill_name skills)
   \<and> conn_to (connections (initializeSkillsWith (canvas 800 600) skills
        [(''Python'', ''Rust'')] noJitter) ! 0) = None
   \<and> ''Python'' \<in> set (map skill_name skills)
   \<and> conn_from (connections (initializeSkillsWith (canvas 800 600) skills
        [(''Python'', ''Rust'')] noJitter) ! 0) \<noteq> None"
proof -
  let ?st = "initializeSkillsWith (canvas 800 600) skills [(''Python'', ''Rust'')] noJitter"
  note t = initialize_resolves_names [of "canvas 800 600" skills "[(''Python'', ''Rust'')]" noJitter]
  have r: "''Rust'' \<notin> set (map skill_name skills)"
    by (simp add: skills_def)
  have p: "''Python'' \<in> set (map skill_name skills)"
    by (simp add: skills_def)
  from t have a: "conn_to (connections ?st ! 0) = None \<longleftrightarrow> ''Rust'' \<notin> set (map skill_name skills)"
    by simp
  from t have b: "conn_from (connections ?st ! 0) = None \<longleftrightarrow> ''Python'' \<notin> set (map skill_name skills)"
    by simp
  show ?thesis
    using a b r p by simp
qed

text \<open>
  Claim C2 as stated fails: with the connection \<open>Python\<close> -- \<open>Rust\<close> over the catalogue of
  the source, where no skill is named \<open>Rust\<close>, initialisation returns a state whose one
  edge has the node of \<open>Python\<close> as its first endpoint and no second endpoint.
\<close>

theorem initialize_rejects_counterexample:
  "''Rust'' \<notin> set (map skill_name skills)
   \<and> length (connections (initializeSkillsWith (canvas 800 600) skills [(''Python'', ''Rust'')] noJitter)) = 1
   \<and> conn_from (connections (initializeSkillsWith (canvas 800 600) skills [(''Python'', ''Rust'')] noJitter) ! 0) = Some 2
   \<and> conn_to (connections (initializeSkillsWith (canvas 800 600) skills [(''Python'', ''Rust'')] noJitter) ! 0) = None"
  by (simp add: initializeSkillsWith_def Let_def skills_def
     makeConnection_def findNode_def makeNode_def)


section \<open>The outer loop touches one node at a time\<close>

lemma updateNode_frame:
  "\<exists>ns. updateNode st i = st\<lparr>nodes := ns\<rparr> \<and> length ns = length (nodes st)
     \<and> (\<forall>j. j \<noteq> i \<longrightarrow> ns ! j = nodes st ! j)"
  by (cases "draggedNode st = Some i") (auto simp: updateNode_def intro: exI [of _ "nodes st"])

lemma updateNode_nth:
  "i < length (nodes st) \<Longrightarrow> draggedNode st \<noteq> Some i \<Longrightarrow>
     nodes (updateNode st i) ! i = boundary st (integrate st i)"
  by (simp add: updateNode_def)

lemma updateNode_dragged: "draggedNode st = Some i \<Longrightarrow> updateNode st i = st"
  by (simp add: updateNode_def)

lemma steps_frame:
  "\<exists>ns. steps js st = st\<lparr>nodes := ns\<rparr> \<and> length ns = length (nodes st)
     \<and> (\<forall>j. j \<notin> set js \<longrightarrow> ns ! j = nodes st ! j)"
proof (induction js arbitrary: st)
  case Nil
  show ?case by (auto simp: steps_def intro: exI [of _ "nodes st"])
next
  case (Cons i js)
  obtain ns1 where 1: "updateNode st i = st\<lparr>nodes := ns1\<rparr>" "length ns1 = length (nodes st)"
    "\<forall>j. j \<noteq> i \<longrightarrow> ns1 ! j = nodes st ! j"
    using updateNode_frame by blast
  obtain ns2 where 2: "steps js (st\<lparr>nodes := ns1\<rparr>) = st\<lparr>nodes := ns1\<rparr>\<lparr>nodes := ns2\<rparr>"
    "length ns2 = length (nodes (st\<lparr>nodes := ns1\<rparr>))"
    "\<forall>j. j \<notin> set js \<longrightarrow> ns2 ! j = nodes (st\<lparr>nodes := ns1\<rparr>) ! j"
    using Cons.IH [of "st\<lparr>nodes := ns1\<rparr>"] by blast
  have "steps (i # js) st = st\<lparr>nodes := ns2\<rparr>"
    using 1 2 by (simp add: steps_def)
  then show ?case using 1 2 by auto
qed

lemma steps_append: "steps (js @ ks) st = steps ks (steps js st)"
  by (simp add: steps_def)

lemma updatePhysics_steps: "updatePhysics st = steps [0..<length (nodes st)] st"
  by (simp add: updatePhysics_def steps_def)

lemma updatePhysics_nth:
  assumes "i < length (nodes st)"
  shows "nodes (updatePhysics st) ! i = nodes (updateNode (steps [0..<i] st) i) ! i"
proof -
  let ?n = "length (nodes st)"
  have "[0..<?n] = [0..<i] @ [i] @ [Suc i..<?n]"
    using assms by (metis append_Cons append_Nil less_imp_le_nat upt_add_eq_append upt_conv_Cons zero_le le_add_diff_inverse)
  then have "updatePhysics st = steps [Suc i..<?n] (updateNode (steps [0..<i] st) i)"
    by (simp add: updatePhysics_steps steps_append) (simp add: steps_def)
  moreover obtain ns where "steps [Suc i..<?n] (updateNode (steps [0..<i] st) i)
      = (updateNode (steps [0..<i] st) i)\<lparr>nodes := ns\<rparr>"
    "\<forall>j. j \<notin> set [Suc i..<?n] \<longrightarrow> ns ! j = nodes (updateNode (steps [0..<i] st) i) ! j"
    using steps_frame by blast
  ultimately show ?thesis by simp
qed

text \<open>The node that is dragged is left alone by every pass, and so by the whole step.\<close>

lemma steps_dragged:
  assumes "draggedNode st = Some d"
  shows "nodes (steps js st) ! d = nodes st ! d"
  using assms
proof (induction js arbitrary: st)
  case Nil
  then show ?case by (simp add: steps_def)
next
  case (Cons i js)
  obtain ns where u: "updateNode st i = st\<lparr>nodes := ns\<rparr>"
    "\<forall>j. j \<noteq> i \<longrightarrow> ns ! j = nodes st ! j"
    using updateNode_frame by blast
  have dr: "draggedNode (updateNode st i) = Some d"
    using u(1) Cons.prems by simp
  have same: "nodes (updateNode st i) ! d = nodes st ! d"
  proof (cases "i = d")
    case True
    then show ?thesis using Cons.prems by (simp add: updateNode_dragged)
  next
    case False
    then show ?thesis using u by simp
  qed
  have "steps (i # js) st = steps js (updateNode st i)"
    by (simp add: steps_def)
  then show ?case
    using Cons.IH [OF dr] same by simp
qed

lemma updatePhysics_dragged:
  "draggedNode st = Some d \<Longrightarrow> nodes (updatePhysics st) ! d = nodes st ! d"
  by (simp add: updatePhysics_steps steps_dragged)


section \<open>Coincident nodes and the sign of the spring\<close>

lemma sqrt_90000: "sqrt 90000 = 300"
  by (rule real_sqrt_unique) simp_all

text \<open>
  Claim C3. The claim fails on the code at two nodes on one point. The \<open>+ 1\<close> keeps the
  magnitude \<open>repulsionStrength / (distSq + 1)\<close> finite, but the direction is
  \<open>dx / dist\<close>, which is \<open>0 / 0\<close>: the repulsion on node 0 is \<open>NaN\<close> on both axes, and so
  are its velocity and its position after the step. The spring of an edge whose
  endpoints coincide is \<open>NaN\<close> in the same way.
\<close>

theorem coincident_nodes_NaN:
  "node_x (nodes (updatePhysics coincident) ! 0) = NaN
   \<and> node_y (nodes (updatePhysics coincident) ! 0) = NaN
   \<and> node_vx (nodes (updatePhysics coincident) ! 0) = NaN
   \<and> node_vy (nodes (updatePhysics coincident) ! 0) = NaN
   \<and> repulsion coincident 0 (Fin 0, Fin 0) = (NaN, NaN)
   \<and> attraction (coincident\<lparr>connections := [\<lparr>conn_from = Some 0, conn_to = Some 1\<rparr>]\<rparr>) 0
        (Fin 0, Fin 0) = (NaN, NaN)"
  by (simp add: updatePhysics_def coincident_def canvas_def setupCanvas_def newEcosystem_def
     sampleNode_def updateNode_def integrate_def boundary_def boundaryX_def boundaryY_def
     forces_def attraction_def repulsion_def repel_def spring_def deref_def Let_def)

text \<open>
  Claim C1. The claim fails on the code at the to-endpoint of an edge. With node 0 at
  \<open>x = 100\<close> and node 1 at \<open>x = 400\<close> on one horizontal line, the edge is stretched by 150
  and the spring has magnitude 0.15. On node 0, the from-endpoint, it points to node 1.
  On node 1, the to-endpoint, it is the same vector: it points away from node 0. The
  two lemmas after the theorem give the contribution of an edge on either endpoint in
  general: the displacement is taken from the node to the other endpoint in both
  branches, and the to-branch negates it once more.
\<close>

theorem spring_on_to_endpoint_repels:
  "attraction stretched 0 (Fin 0, Fin 0) = (Fin 0.15, Fin 0)
   \<and> attraction stretched 1 (Fin 0, Fin 0) = (Fin 0.15, Fin 0)
   \<and> node_x (nodes stretched ! 0) = Fin 100
   \<and> node_x (nodes stretched ! 1) = Fin 400"
  by (simp add: stretched_def canvas_def setupCanvas_def newEcosystem_def
     sampleNode_def attraction_def spring_def deref_def Let_def sqrt_90000)

lemma spring_from_endpoint:
  assumes "conn_from c = Some i" and "conn_to c = Some k" and "k < length (nodes st)"
    and "node_x (nodes st ! i) = Fin ax" and "node_y (nodes st ! i) = Fin ay"
    and "node_x (nodes st ! k) = Fin bx" and "node_y (nodes st ! k) = Fin by"
    and "attractionStrength st = Fin s"
    and "(ax, ay) \<noteq> (bx, by)"
  shows "spring st i c (Fin fx, Fin fy) =
     (Fin (fx + (bx - ax) / sqrt ((bx - ax)\<^sup>2 + (by - ay)\<^sup>2)
              * ((sqrt ((bx - ax)\<^sup>2 + (by - ay)\<^sup>2) - 150) * s)),
      Fin (fy + (by - ay) / sqrt ((bx - ax)\<^sup>2 + (by - ay)\<^sup>2)
              * ((sqrt ((bx - ax)\<^sup>2 + (by - ay)\<^sup>2) - 150) * s)))"
proof -
  have "(bx - ax) * (bx - ax) + (by - ay) * (by - ay) \<noteq> 0"
    using assms(9) by (auto simp: add_nonneg_eq_0_iff)
  then show ?thesis
    using assms by (simp add: spring_def deref_def Let_def power2_eq_square)
qed

lemma spring_to_endpoint:
  assumes "conn_from c = Some k" and "conn_to c = Some i" and "k \<noteq> i" and "k < length (nodes st)"
    and "node_x (nodes st ! i) = Fin ax" and "node_y (nodes st ! i) = Fin ay"
    and "node_x (nodes st ! k) = Fin bx" and "node_y (nodes st ! k) = Fin by"
    and "attractionStrength st = Fin s"
    and "(ax, ay) \<noteq> (bx, by)"
  shows "spring st i c (Fin fx, Fin fy) =
     (Fin (fx - (bx - ax) / sqrt ((bx - ax)\<^sup>2 + (by - ay)\<^sup>2)
              * ((sqrt ((bx - ax)\<^sup>2 + (by - ay)\<^sup>2) - 150) * s)),
      Fin (fy - (by - ay) / sqrt ((bx - ax)\<^sup>2 + (by - ay)\<^sup>2)
              * ((sqrt ((bx - ax)\<^sup>2 + (by - ay)\<^sup>2) - 150) * s)))"
proof -
  have "(bx - ax) * (bx - ax) + (by - ay) * (by - ay) \<noteq> 0"
    using assms(10) by (auto simp: add_nonneg_eq_0_iff)
  then show ?thesis
    using assms by (simp add: spring_def deref_def Let_def power2_eq_square)
qed


section \<open>The soft boundary\<close>

lemma boundaryX_fields:
  "node_y (boundaryX st p) = node_y p" "node_vy (boundaryX st p) = node_vy p"
  "node_radius (boundaryX st p) = node_radius p"
  by (simp_all add: boundaryX_def Let_def)

lemma boundaryY_fields:
  "node_x (boundaryY st p) = node_x p" "node_vx (boundaryY st p) = node_vx p"
  "node_radius (boundaryY st p) = node_radius p"
  by (simp_all add: boundaryY_def Let_def)

lemma boundaryX_vx:
  assumes "node_radius p = Fin r" and "width st = Fin W"
  shows "node_vx (boundaryX st p) =
     (if node_x p < Fin (r + 10) \<or> Fin (W - (r + 10)) < node_x p
      then node_vx p * Fin (- 0.5) else node_vx p)"
  using assms by (simp add: boundaryX_def Let_def)

lemma boundaryY_vy:
  assumes "node_radius p = Fin r" and "height st = Fin H"
  shows "node_vy (boundaryY st p) =
     (if node_y p < Fin (r + 10) \<or> Fin (H - (r + 10)) < node_y p
      then node_vy p * Fin (- 0.5) else node_vy p)"
  using assms by (simp add: boundaryY_def Let_def)

lemma boundaryX_range:
  assumes "node_radius p = Fin r" and "width st = Fin W" and "2 * (r + 10) \<le> W"
    and "node_x (boundaryX st p) \<noteq> NaN"
  shows "inBounds (r + 10) W (node_x (boundaryX st p))"
  using assms by (cases "node_x p") (auto simp: boundaryX_def Let_def inBounds_def)

lemma boundaryY_range:
  assumes "node_radius p = Fin r" and "height st = Fin H" and "2 * (r + 10) \<le> H"
    and "node_y (boundaryY st p) \<noteq> NaN"
  shows "inBounds (r + 10) H (node_y (boundaryY st p))"
  using assms by (cases "node_y p") (auto simp: boundaryY_def Let_def inBounds_def)

lemma integrate_radius: "node_radius (integrate st i) = node_radius (nodes st ! i)"
  by (simp add: integrate_def Let_def)

lemma updatePhysics_node:
  assumes "i < length (nodes st)" and "draggedNode st \<noteq> Some i"
  shows "nodes (updatePhysics st) ! i
           = boundary (steps [0..<i] st) (integrate (steps [0..<i] st) i)"
    and "node_radius (nodes (steps [0..<i] st) ! i) = node_radius (nodes st ! i)"
    and "width (steps [0..<i] st) = width st"
    and "height (steps [0..<i] st) = height st"
proof -
  obtain ns where ns: "steps [0..<i] st = st\<lparr>nodes := ns\<rparr>" "length ns = length (nodes st)"
    "\<forall>j. j \<notin> set [0..<i] \<longrightarrow> ns ! j = nodes st ! j"
    using steps_frame by blast
  have "nodes (updatePhysics st) ! i = nodes (updateNode (steps [0..<i] st) i) ! i"
    using assms(1) by (rule updatePhysics_nth)
  also have "\<dots> = boundary (steps [0..<i] st) (integrate (steps [0..<i] st) i)"
    using assms ns by (intro updateNode_nth) simp_all
  finally show "nodes (updatePhysics st) ! i
           = boundary (steps [0..<i] st) (integrate (steps [0..<i] st) i)" .
  show "node_radius (nodes (steps [0..<i] st) ! i) = node_radius (nodes st ! i)"
    using ns by simp
  show "width (steps [0..<i] st) = width st" "height (steps [0..<i] st) = height st"
    using ns by simp_all
qed

text \<open>
  Claim C8, as amended. Let node \<open>i\<close> be a node that is not dragged, of finite radius
  \<open>r\<close>, on a canvas whose width and height are at least \<open>2 (r + 10)\<close>. After one step of
  the layout engine each coordinate of the node that is not \<open>NaN\<close> lies in
  \<open>[r + 10, dimension - (r + 10)]\<close>. Its velocity on an axis is \<open>-0.5\<close> times the velocity
  the integration gave it when the clamp of that axis fired (the integrated coordinate
  was below the range or above it), and the integrated velocity otherwise, whatever
  happened on the other axis. The integration is that of the pass of the outer loop
  that visits the node, on the state the passes for the nodes before it have left.
\<close>

theorem boundary_after_step:
  assumes "width st = Fin W" and "height st = Fin H"
    and "i < length (nodes st)" and "draggedNode st \<noteq> Some i"
    and "node_radius (nodes st ! i) = Fin r"
    and "2 * (r + 10) \<le> W" and "2 * (r + 10) \<le> H"
  shows "(node_x (nodes (updatePhysics st) ! i) \<noteq> NaN \<longrightarrow>
            inBounds (r + 10) W (node_x (nodes (updatePhysics st) ! i)))
       \<and> (node_y (nodes (updatePhysics st) ! i) \<noteq> NaN \<longrightarrow>
            inBounds (r + 10) H (node_y (nodes (updatePhysics st) ! i)))
       \<and> node_vx (nodes (updatePhysics st) ! i) =
           (if node_x (integrate (steps [0..<i] st) i) < Fin (r + 10)
               \<or> Fin (W - (r + 10)) < node_x (integrate (steps [0..<i] st) i)
            then node_vx (integrate (steps [0..<i] st) i) * Fin (- 0.5)
            else node_vx (integrate (steps [0..<i] st) i))
       \<and> node_vy (nodes (updatePhysics st) ! i) =
           (if node_y (integrate (steps [0..<i] st) i) < Fin (r + 10)
               \<or> Fin (H - (r + 10)) < node_y (integrate (steps [0..<i] st) i)
            then node_vy (integrate (steps [0..<i] st) i) * Fin (- 0.5)
            else node_vy (integrate (steps [0..<i] st) i))"
proof -
  let ?s = "steps [0..<i] st"
  let ?p = "integrate ?s i"
  note n = updatePhysics_node [OF assms(3,4)]
  have q: "nodes (updatePhysics st) ! i = boundaryY ?s (boundaryX ?s ?p)"
    using n(1) by (simp add: boundary_def)
  have rp: "node_radius ?p = Fin r"
    using n(2) assms(5) by (simp add: integrate_radius)
  have w: "width ?s = Fin W" and h: "height ?s = Fin H"
    using n(3,4) assms(1,2) by simp_all
  have rx: "node_radius (boundaryX ?s ?p) = Fin r"
    using rp by (simp add: boundaryX_fields)
  have x: "node_x (nodes (updatePhysics st) ! i) = node_x (boundaryX ?s ?p)"
    by (simp add: q boundaryY_fields)
  have vx: "node_vx (nodes (updatePhysics st) ! i) = node_vx (boundaryX ?s ?p)"
    by (simp add: q boundaryY_fields)
  have 1: "node_x (nodes (updatePhysics st) ! i) \<noteq> NaN \<longrightarrow>
            inBounds (r + 10) W (node_x (nodes (updatePhysics st) ! i))"
    unfolding x using boundaryX_range [OF rp w assms(6)] by blast
  have 2: "node_y (nodes (updatePhysics st) ! i) \<noteq> NaN \<longrightarrow>
            inBounds (r + 10) H (node_y (nodes (updatePhysics st) ! i))"
    unfolding q using boundaryY_range [OF rx h assms(7)] by blast
  have 3: "node_vx (nodes (updatePhysics st) ! i) =
           (if node_x ?p < Fin (r + 10) \<or> Fin (W - (r + 10)) < node_x ?p
            then node_vx ?p * Fin (- 0.5) else node_vx ?p)"
    unfolding vx by (rule boundaryX_vx [OF rp w])
  have 4: "node_vy (nodes (updatePhysics st) ! i) =
           (if node_y ?p < Fin (r + 10) \<or> Fin (H - (r + 10)) < node_y ?p
            then node_vy ?p * Fin (- 0.5) else node_vy ?p)"
    unfolding q using boundaryY_vy [OF rx h, of ] by (simp add: boundaryX_fields)
  from 1 2 3 4 show ?thesis by blast
qed

text \<open>
  Claim C8 as stated fails on a canvas narrower than two margins: on a canvas of 60 by 60
  the node at the centre is moved to \<open>x = 40\<close> by the first test of the clamp, the second
  test is then not made, and 40 is above \<open>60 - 40\<close>.
\<close>

theorem boundary_counterexample:
  "width cramped = Fin 60
   \<and> node_radius (nodes cramped ! 0) = Fin 30
   \<and> draggedNode cramped = None
   \<and> node_x (nodes (updatePhysics cramped) ! 0) = Fin 40
   \<and> \<not> inBounds (30 + 10) 60 (node_x (nodes (updatePhysics cramped) ! 0))"
  by (simp add: updatePhysics_def cramped_def canvas_def setupCanvas_def newEcosystem_def
     sampleNode_def updateNode_def integrate_def boundary_def boundaryX_def boundaryY_def
     forces_def attraction_def repulsion_def repel_def spring_def deref_def Let_def inBounds_def)


theorem boundary_after_step_witness:
  "width bouncing = Fin 800 \<and> height bouncing = Fin 600
   \<and> 0 < length (nodes bouncing) \<and> draggedNode bouncing \<noteq> Some 0
   \<and> node_radius (nodes bouncing ! 0) = Fin 30
   \<and> node_x (integrate (steps [0..<0] bouncing) 0) = Fin 28.6035
   \<and> node_x (nodes (updatePhysics bouncing) ! 0) = Fin 40
   \<and> inBounds (30 + 10) 800 (node_x (nodes (updatePhysics bouncing) ! 0))
   \<and> inBounds (30 + 10) 600 (node_y (nodes (updatePhysics bouncing) ! 0))
   \<and> node_vx (nodes (updatePhysics bouncing) ! 0) = Fin (- 16.3965) * Fin (- 0.5)
   \<and> node_vy (nodes (updatePhysics bouncing) ! 0) = Fin 0"
proof -
  have hyp: "width bouncing = Fin 800" "height bouncing = Fin 600"
    "0 < length (nodes bouncing)" "draggedNode bouncing \<noteq> Some 0"
    "node_radius (nodes bouncing ! 0) = Fin 30"
    by (simp_all add: bouncing_def canvas_def setupCanvas_def newEcosystem_def sampleNode_def)
  have p: "node_x (integrate (steps [0..<0] bouncing) 0) = Fin 28.6035"
    "node_vx (integrate (steps [0..<0] bouncing) 0) = Fin (- 16.3965)"
    "node_y (integrate (steps [0..<0] bouncing) 0) = Fin 300"
    "node_vy (integrate (steps [0..<0] bouncing) 0) = Fin 0"
    by (simp_all add: steps_def bouncing_def canvas_def setupCanvas_def newEcosystem_def
        sampleNode_def integrate_def forces_def attraction_def repulsion_def Let_def)
  have e: "node_x (nodes (updatePhysics bouncing) ! 0) = Fin 40"
    "node_y (nodes (updatePhysics bouncing) ! 0) = Fin 300"
    by (simp_all add: updatePhysics_def bouncing_def canvas_def setupCanvas_def newEcosystem_def
        sampleNode_def updateNode_def integrate_def boundary_def boundaryX_def boundaryY_def
        forces_def attraction_def repulsion_def Let_def)
  from boundary_after_step [OF hyp, of ] e p
  have "inBounds (30 + 10) 800 (node_x (nodes (updatePhysics bouncing) ! 0))
      \<and> inBounds (30 + 10) 600 (node_y (nodes (updatePhysics bouncing) ! 0))
      \<and> node_vx (nodes (updatePhysics bouncing) ! 0) = Fin (- 16.3965) * Fin (- 0.5)
      \<and> node_vy (nodes (updatePhysics bouncing) ! 0) = Fin 0"
    by simp
  with hyp p e show ?thesis by simp
qed


section \<open>Repulsion\<close>

lemma repel_Fin:
  assumes "node_x a = Fin ax" and "node_y a = Fin ay"
    and "node_x b = Fin bx" and "node_y b = Fin by"
    and "repulsionStrength st = Fin rs" and "minDistance st = Fin md"
    and "(ax, ay) \<noteq> (bx, by)"
  shows "repel st a b (Fin fx, Fin fy) =
     (Fin (fx + fst (specRepulsion rs md (ax, ay) (bx, by))),
      Fin (fy + snd (specRepulsion rs md (ax, ay) (bx, by))))"
proof -
  have ne: "\<not> (ax = bx \<and> ay = by)"
    using assms(7) by simp
  show ?thesis
    using assms(1-6) ne
    by (auto simp: repel_def specRepulsion_def Let_def power2_eq_square mult.commute)
qed

lemma repulsion_prefix:
  assumes fin: "\<forall>j<length (nodes st). node_x (nodes st ! j) = Fin (px j)
                   \<and> node_y (nodes st ! j) = Fin (py j)"
    and rs: "repulsionStrength st = Fin rs" and md: "minDistance st = Fin md"
    and i: "i < length (nodes st)"
    and apart: "\<forall>j<length (nodes st). j \<noteq> i \<longrightarrow> (px j, py j) \<noteq> (px i, py i)"
    and k: "k \<le> length (nodes st)"
  shows "fold (\<lambda>j f. if i = j then f else repel st (nodes st ! i) (nodes st ! j) f)
           [0..<k] (Fin 0, Fin 0) =
         (Fin (\<Sum>j\<in>{..<k} - {i}. fst (specRepulsion rs md (px i, py i) (px j, py j))),
          Fin (\<Sum>j\<in>{..<k} - {i}. snd (specRepulsion rs md (px i, py i) (px j, py j))))"
  using k
proof (induction k)
  case 0
  then show ?case by simp
next
  case (Suc k)
  then have kl: "k < length (nodes st)" and IH: "fold (\<lambda>j f. if i = j then f else repel st (nodes st ! i) (nodes st ! j) f)
           [0..<k] (Fin 0, Fin 0) =
         (Fin (\<Sum>j\<in>{..<k} - {i}. fst (specRepulsion rs md (px i, py i) (px j, py j))),
          Fin (\<Sum>j\<in>{..<k} - {i}. snd (specRepulsion rs md (px i, py i) (px j, py j))))"
    by simp_all
  show ?case
  proof (cases "i = k")
    case True
    then have "{..<Suc k} - {i} = {..<k} - {i}" by auto
    then show ?thesis using IH True by simp
  next
    case False
    then have s: "{..<Suc k} - {i} = insert k ({..<k} - {i})" by auto
    have a: "node_x (nodes st ! i) = Fin (px i)" "node_y (nodes st ! i) = Fin (py i)"
      using fin i by simp_all
    have b: "node_x (nodes st ! k) = Fin (px k)" "node_y (nodes st ! k) = Fin (py k)"
      using fin kl by simp_all
    have d: "(px i, py i) \<noteq> (px k, py k)"
      using apart kl False by (metis)
    show ?thesis
      using False by (simp add: IH s repel_Fin [OF a b rs md d] add.commute)
  qed
qed

text \<open>
  Claim C5, as amended. Let every node be at a finite point, let the repulsion strength
  and the minimum distance be finite, and let no other node be at the point of node \<open>i\<close>.
  Then the repulsion the inner loop accumulates for node \<open>i\<close> is the sum, over the other
  nodes \<open>j\<close>, of the specification's force of \<open>j\<close> on \<open>i\<close>: for each \<open>j\<close> nearer than
  \<open>3 minDistance\<close> the vector of magnitude \<open>repulsionStrength / (distance\<^sup>2 + 1)\<close> along the
  unit vector from \<open>j\<close> to \<open>i\<close>, and nothing for the others. The second conjunct is the
  place of that sum in the accumulated force of the pass.
\<close>

theorem repulsion_is_cutoff_sum:
  assumes "\<forall>j<length (nodes st). node_x (nodes st ! j) = Fin (px j)
                   \<and> node_y (nodes st ! j) = Fin (py j)"
    and "repulsionStrength st = Fin rs" and "minDistance st = Fin md"
    and "i < length (nodes st)"
    and "\<forall>j<length (nodes st). j \<noteq> i \<longrightarrow> (px j, py j) \<noteq> (px i, py i)"
  shows "repulsion st i (Fin 0, Fin 0) =
         (Fin (\<Sum>j\<in>{..<length (nodes st)} - {i}.
                 fst (specRepulsion rs md (px i, py i) (px j, py j))),
          Fin (\<Sum>j\<in>{..<length (nodes st)} - {i}.
                 snd (specRepulsion rs md (px i, py i) (px j, py j))))
       \<and> forces st i =
         (fst (attraction st i (repulsion st i (Fin 0, Fin 0)))
            + (centerX st - node_x (nodes st ! i)) * centerAttraction st,
          snd (attraction st i (repulsion st i (Fin 0, Fin 0)))
            + (centerY st - node_y (nodes st ! i)) * centerAttraction st)"
  using repulsion_prefix [OF assms order_refl]
  by (simp add: repulsion_def forces_def Let_def)


lemma sqrt_25: "sqrt 25 = 5"
  by (rule real_sqrt_unique) simp_all

theorem repulsion_is_cutoff_sum_witness:
  "repulsionStrength triangle = Fin 8000 \<and> minDistance triangle = Fin 100
   \<and> 0 < length (nodes triangle)
   \<and> specRepulsion 8000 100 (100, 100) (103, 104) = (- 2400 / 13, - 3200 / 13)
   \<and> specRepulsion 8000 100 (100, 100) (500, 100) = (0, 0)
   \<and> repulsion triangle 0 (Fin 0, Fin 0) = (Fin (- 2400 / 13), Fin (- 3200 / 13))"
proof -
  let ?px = "\<lambda>j. [100, 103, 500 :: real] ! j"
  let ?py = "\<lambda>j. [100, 104, 100 :: real] ! j"
  have len: "length (nodes triangle) = 3"
    by (simp add: triangle_def)
  have fin: "\<forall>j<length (nodes triangle). node_x (nodes triangle ! j) = Fin (?px j)
               \<and> node_y (nodes triangle ! j) = Fin (?py j)"
    unfolding len by (auto simp: triangle_def sampleNode_def less_Suc_eq numeral_3_eq_3)
  have rs: "repulsionStrength triangle = Fin 8000" and md: "minDistance triangle = Fin 100"
    by (simp_all add: triangle_def canvas_def setupCanvas_def newEcosystem_def)
  have i: "0 < length (nodes triangle)"
    by (simp add: len)
  have apart: "\<forall>j<length (nodes triangle). j \<noteq> 0 \<longrightarrow> (?px j, ?py j) \<noteq> (?px 0, ?py 0)"
    unfolding len by (auto simp: less_Suc_eq numeral_3_eq_3)
  have s1: "specRepulsion 8000 100 (100, 100) (103, 104) = (- 2400 / 13, - 3200 / 13)"
    by (simp add: specRepulsion_def Let_def sqrt_25)
  have s2: "specRepulsion 8000 100 (100, 100) (500, 100) = (0, 0)"
    by (simp add: specRepulsion_def Let_def sqrt_less_iff_sq)
  have set: "{..<3::nat} - {0} = {1, 2}"
    by auto
  from repulsion_is_cutoff_sum [OF fin rs md i apart]
  have "repulsion triangle 0 (Fin 0, Fin 0) = (Fin (- 2400 / 13), Fin (- 3200 / 13))"
    unfolding len set by (simp add: s1 s2)
  with rs md i s1 s2 show ?thesis by simp
qed

text \<open>
  Claim C5 as stated fails for another node at the same point: the distance is 0, below
  the cut-off, there is no unit vector, and what the loop accumulates is \<open>NaN\<close> on both
  axes, not a force of magnitude \<open>8000 / (0 + 1)\<close>.
\<close>

theorem repulsion_coincident_counterexample:
  "node_x (nodes coincident ! 0) = node_x (nodes coincident ! 1)
   \<and> node_y (nodes coincident ! 0) = node_y (nodes coincident ! 1)
   \<and> draggedNode coincident = None
   \<and> repulsion coincident 0 (Fin 0, Fin 0) = (NaN, NaN)"
  by (simp add: coincident_def canvas_def setupCanvas_def newEcosystem_def
     sampleNode_def repulsion_def repel_def Let_def)


section \<open>Monotone approach to the centre\<close>






















text \<open>
  Why the theorem below speaks of nodes that are not \<open>NaN\<close>: with the default constants
  and no repulsion strength, two nodes that start at different points can meet.
\<close>

lemma center_pull_can_poison:
  "atRestInside 800 600 (nodes meeting ! 0) \<and> atRestInside 800 600 (nodes meeting ! 1)
   \<and> node_x (nodes meeting ! 0) \<noteq> node_x (nodes meeting ! 1)
   \<and> node_x (nodes (updatePhysics meeting) ! 0) = Fin 699.49
   \<and> node_x (nodes (updatePhysics meeting) ! 1) = NaN"
proof -
  let ?moved = "(sampleNode 0 699.49 300)\<lparr>node_vx := Fin (- 0.51)\<rparr>"
  let ?m1 = "meeting\<lparr>nodes := [?moved, sampleNode 1 699.49 300]\<rparr>"
  have start: "atRestInside 800 600 (nodes meeting ! 0)" "atRestInside 800 600 (nodes meeting ! 1)"
    "node_x (nodes meeting ! 0) \<noteq> node_x (nodes meeting ! 1)"
    by (simp_all add: meeting_def sampleNode_def atRestInside_def)
  have par: "draggedNode meeting = None" "connections meeting = []"
    "centerX meeting = Fin 400" "centerY meeting = Fin 300"
    "centerAttraction meeting = Fin 0.002" "friction meeting = Fin 0.85"
    "width meeting = Fin 800" "height meeting = Fin 600"
    "nodes meeting = [sampleNode 0 700 300, sampleNode 1 699.49 300]"
    by (simp_all add: meeting_def canvas_def setupCanvas_def newEcosystem_def)
  have rep0: "repulsion meeting 0 (Fin 0, Fin 0) = (Fin 0, Fin 0)"
    by (simp add: meeting_def canvas_def setupCanvas_def newEcosystem_def
        sampleNode_def repulsion_def repel_def Let_def)
  have f0: "forces meeting 0 = (Fin (- 0.6), Fin 0)"
    unfolding forces_def Let_def rep0 attraction_def par by (simp add: sampleNode_def)
  have i0: "integrate meeting 0 = ?moved"
    unfolding integrate_def Let_def f0 par by (simp add: sampleNode_def)
  have b0: "boundary meeting ?moved = ?moved"
    unfolding boundary_def boundaryX_def boundaryY_def Let_def par by (simp add: sampleNode_def)
  have u0: "updateNode meeting 0 = ?m1"
    unfolding updateNode_def i0 b0 par by simp
  have rep1: "repulsion ?m1 1 (Fin 0, Fin 0) = (NaN, NaN)"
    by (simp add: meeting_def canvas_def setupCanvas_def newEcosystem_def
        sampleNode_def repulsion_def repel_def Let_def)
  have f1: "forces ?m1 1 = (NaN, NaN)"
    unfolding forces_def Let_def rep1 attraction_def by (simp add: par)
  have i1: "node_x (integrate ?m1 1) = NaN" "node_radius (integrate ?m1 1) = Fin 30"
    unfolding integrate_def Let_def f1 by (simp_all add: sampleNode_def)
  have b1: "node_x (boundary ?m1 (integrate ?m1 1)) = NaN"
    using i1 by (simp add: boundary_def boundaryX_def boundaryY_def Let_def)
  have u: "updatePhysics meeting = updateNode ?m1 1"
    unfolding updatePhysics_def par by (simp add: u0 [unfolded par])
  have x1: "node_x (nodes (updatePhysics meeting) ! 1) = NaN"
    unfolding u updateNode_def using b1 by (simp add: par)
  have x0: "node_x (nodes (updatePhysics meeting) ! 0) = Fin 699.49"
    unfolding u updateNode_def by (simp add: par sampleNode_def)
  from start x0 x1 show ?thesis by simp
qed



















end
